theory Spec2Isabelle
  imports Main
begin

section \<open>Custom-functions metadata extraction (parseTree)\<close>

text \<open>
  A shallow embedding of the metadata extractor \<^verbatim>\<open>parseTree\<close> and of the helpers it
  calls. The extractor works on the syntax tree that the TypeScript compiler API builds
  from the source text; the embedding starts at that tree. Every record below holds, for
  one kind of tree node, the values the extractor reads from it through the compiler API
  (\<^verbatim>\<open>node.type\<close>, \<^verbatim>\<open>typeName.getText()\<close>, \<^verbatim>\<open>ts.getJSDocTags(node)\<close>, ...).

  Text is modelled as \<^typ>\<open>string\<close>; identifiers, tag names and type names are taken to
  be ASCII, and case mapping, \<^verbatim>\<open>localeCompare\<close> and the letter class of the name
  pattern are the ASCII ones. A JavaScript value that may be \<^verbatim>\<open>undefined\<close> is an
  \<^typ>\<open>'a option\<close>. Diagnostics are kept as values of the datatype \<open>diagnostic\<close>, one
  constructor per message template of the source; the \<^verbatim>\<open>(line,column)\<close> suffix that
  \<^verbatim>\<open>logError\<close> appends is not part of the model.

  One assumption on the input limits the model: names hold no control characters,
  which \<^verbatim>\<open>localeCompare\<close> ignores, and the comparison does not depend on the locale of
  the host.
\<close>

subsection \<open>Type nodes\<close>

text \<open>
  The kinds of type node that are neither an array type \<^verbatim>\<open>T[]\<close> nor a type
  reference. The first ten are the keys of \<^verbatim>\<open>TYPE_MAPPINGS\<close>; every other kind is
  \<open>UnmappedKind\<close> with the name \<^verbatim>\<open>ts.SyntaxKind[kind]\<close> prints. The source reads
  the element type of an array type and the type arguments of a type reference; of a
  node of any other kind (a parenthesized type, \<^verbatim>\<open>readonly T\<close>, a union, ...) it reads
  the kind only, so such a node is kept without its children.
\<close>

datatype other_kind =
    NumberKeyword | StringKeyword | BooleanKeyword | AnyKeyword | UnionType | TupleType
  | EnumKeyword | ObjectKeyword | VoidKeyword | UnknownKeyword | UnmappedKind string

datatype type_node =
    ArrayTypeNode type_node
  | TypeReferenceNode string "type_node list option"
  | OtherTypeNode other_kind

datatype syntax_kind = ArrayType | TypeReference | OtherKind other_kind

fun kind :: "type_node \<Rightarrow> syntax_kind" where
  "kind (ArrayTypeNode _) = ArrayType"
| "kind (TypeReferenceNode _ _) = TypeReference"
| "kind (OtherTypeNode k) = OtherKind k"

fun isArrayTypeNode :: "type_node \<Rightarrow> bool" where
  "isArrayTypeNode (ArrayTypeNode _) = True"
| "isArrayTypeNode _ = False"

fun isTypeReferenceNode :: "type_node \<Rightarrow> bool" where
  "isTypeReferenceNode (TypeReferenceNode _ _) = True"
| "isTypeReferenceNode _ = False"

record IArrayType =
  array_dimensionality :: nat
  array_node :: type_node

text \<open>The \<^verbatim>\<open>while\<close> loop of getArrayDimensionalityAndTypeForArrayTypeNode.\<close>

fun arrayTypeNodeLoop :: "nat \<Rightarrow> type_node \<Rightarrow> IArrayType" where
  "arrayTypeNodeLoop d (ArrayTypeNode e) = arrayTypeNodeLoop (d + 1) e"
| "arrayTypeNodeLoop d n = \<lparr>array_dimensionality = d, array_node = n\<rparr>"

text \<open>Only called on an array type node; the second equation is never reached.\<close>

fun getArrayDimensionalityAndTypeForArrayTypeNode :: "type_node \<Rightarrow> IArrayType" where
  "getArrayDimensionalityAndTypeForArrayTypeNode (ArrayTypeNode e) = arrayTypeNodeLoop 1 e"
| "getArrayDimensionalityAndTypeForArrayTypeNode n = \<lparr>array_dimensionality = 1, array_node = n\<rparr>"

text \<open>
  The \<^verbatim>\<open>while\<close> loop of getArrayDimensionalityAndTypeForReferenceNode: it goes on
  while the node is a reference named \<^verbatim>\<open>Array\<close> with exactly one type argument.
\<close>

fun getArrayDimensionalityAndTypeForReferenceNode :: "nat \<Rightarrow> type_node \<Rightarrow> IArrayType" where
  "getArrayDimensionalityAndTypeForReferenceNode c (TypeReferenceNode n (Some [a])) =
     (if n = ''Array'' then getArrayDimensionalityAndTypeForReferenceNode (c + 1) a
      else \<lparr>array_dimensionality = c, array_node = TypeReferenceNode n (Some [a])\<rparr>)"
| "getArrayDimensionalityAndTypeForReferenceNode c n = \<lparr>array_dimensionality = c, array_node = n\<rparr>"

fun getArrayDimensionalityAndType :: "type_node \<Rightarrow> IArrayType" where
  "getArrayDimensionalityAndType (ArrayTypeNode e) =
     getArrayDimensionalityAndTypeForArrayTypeNode (ArrayTypeNode e)"
| "getArrayDimensionalityAndType (TypeReferenceNode n a) =
     getArrayDimensionalityAndTypeForReferenceNode 0 (TypeReferenceNode n a)"
| "getArrayDimensionalityAndType n = \<lparr>array_dimensionality = 0, array_node = n\<rparr>"

fun typeNodeIsArray :: "type_node \<Rightarrow> bool" where
  "typeNodeIsArray (ArrayTypeNode _) = True"
| "typeNodeIsArray (TypeReferenceNode n _) = (n = ''Array'')"
| "typeNodeIsArray _ = False"

definition getParamDim :: "type_node option \<Rightarrow> string" where
  "getParamDim t =
     (case t of
        None \<Rightarrow> ''scalar''
      | Some n \<Rightarrow>
          if isTypeReferenceNode n \<or> isArrayTypeNode n
          then (if 1 < array_dimensionality (getArrayDimensionalityAndType n)
                then ''matrix'' else ''scalar'')
          else ''scalar'')"

definition isRepeatingParameter :: "type_node option \<Rightarrow> bool" where
  "isRepeatingParameter t =
     (case t of
        None \<Rightarrow> False
      | Some n \<Rightarrow>
          if isTypeReferenceNode n \<or> isArrayTypeNode n
          then (let array = getArrayDimensionalityAndType n
                in array_dimensionality array = 1 \<or> array_dimensionality array = 3)
          else False)"

subsection \<open>Strings\<close>

text \<open>ASCII case mapping, for \<^verbatim>\<open>toLowerCase\<close>, \<^verbatim>\<open>toLocaleLowerCase\<close> and \<^verbatim>\<open>toLocaleUpperCase\<close>.\<close>

definition isUpper :: "char \<Rightarrow> bool" where
  "isUpper c = (65 \<le> (of_char c :: nat) \<and> (of_char c :: nat) \<le> 90)"

definition isLower :: "char \<Rightarrow> bool" where
  "isLower c = (97 \<le> (of_char c :: nat) \<and> (of_char c :: nat) \<le> 122)"

definition isDigit :: "char \<Rightarrow> bool" where
  "isDigit c = (48 \<le> (of_char c :: nat) \<and> (of_char c :: nat) \<le> 57)"

definition isLetter :: "char \<Rightarrow> bool" where
  "isLetter c = (isUpper c \<or> isLower c)"

definition toLowerChar :: "char \<Rightarrow> char" where
  "toLowerChar c = (if isUpper c then char_of ((of_char c :: nat) + 32) else c)"

definition toUpperChar :: "char \<Rightarrow> char" where
  "toUpperChar c = (if isLower c then char_of ((of_char c :: nat) - 32) else c)"

definition toLowerCase :: "string \<Rightarrow> string" where
  "toLowerCase s = map toLowerChar s"

definition toLocaleUpperCase :: "string \<Rightarrow> string" where
  "toLocaleUpperCase s = map toUpperChar s"

text \<open>
  \<^verbatim>\<open>s.split(" ")\<close>: the pieces between single spaces; the result is never empty.
\<close>

fun split_space :: "string \<Rightarrow> string list" where
  "split_space [] = [[]]"
| "split_space (c # cs) =
     (if c = CHR '' '' then [] # split_space cs
      else (case split_space cs of p # ps \<Rightarrow> (c # p) # ps | [] \<Rightarrow> [[c]]))"

text \<open>\<^verbatim>\<open>s.indexOf(c)\<close> for a one-character needle: \<open>-1\<close> when absent.\<close>

fun indexOf :: "string \<Rightarrow> char \<Rightarrow> int" where
  "indexOf [] c = -1"
| "indexOf (x # xs) c = (if x = c then 0 else (let i = indexOf xs c in if i < 0 then -1 else i + 1))"

text \<open>
  \<^verbatim>\<open>s.slice(start, end)\<close>: a negative index counts from the end, and both are clamped
  to the string.
\<close>

definition slice :: "string \<Rightarrow> int \<Rightarrow> int \<Rightarrow> string" where
  "slice s start end =
     (let len = int (length s);
          from = (if start < 0 then max (len + start) 0 else min start len);
          to = (if end < 0 then max (len + end) 0 else min end len)
      in take (nat (to - from)) (drop (nat from) s))"

text \<open>White space of \<^verbatim>\<open>trim\<close>, of \<^verbatim>\<open>\s\<close> and of the numeric-string grammar (ASCII).\<close>

definition isWhiteSpace :: "char \<Rightarrow> bool" where
  "isWhiteSpace c = ((9 \<le> (of_char c :: nat) \<and> (of_char c :: nat) \<le> 13) \<or> (of_char c :: nat) = 32)"

definition trim :: "string \<Rightarrow> string" where
  "trim s = rev (dropWhile isWhiteSpace (rev (dropWhile isWhiteSpace s)))"

subsection \<open>Property reads\<close>

text \<open>
  The source uses object literals as dictionaries (\<^verbatim>\<open>CELLVALUETYPE_MAPPINGS\<close>,
  \<^verbatim>\<open>TYPE_CUSTOM_FUNCTIONS_STREAMING\<close>, \<^verbatim>\<open>TYPE_CUSTOM_FUNCTION_CANCELABLE\<close> and the three
  tables built from the \<^verbatim>\<open>@param\<close> tags). A property read \<^verbatim>\<open>obj[key]\<close> of JavaScript
  finds the own property of that name or else what the object inherits from
  \<^verbatim>\<open>Object.prototype\<close>. The members of \<^verbatim>\<open>Object.prototype\<close> are functions, and under
  \<^verbatim>\<open>__proto__\<close> the prototype itself: all of them are truthy, and none of them has a
  property that the source reads from a value it found in a dictionary.

  So a value read from a dictionary is \<open>Own v\<close>, a value that was put there, or
  \<open>Inherited key\<close>, the value inherited under that key; \<open>None\<close> is \<^verbatim>\<open>undefined\<close>. A
  field of an output record that the source fills with such a value has the same type.
\<close>

definition objectPrototypeMembers :: "string list" where
  "objectPrototypeMembers =
     [''constructor'', ''__defineGetter__'', ''__defineSetter__'', ''hasOwnProperty'',
      ''__lookupGetter__'', ''__lookupSetter__'', ''isPrototypeOf'', ''propertyIsEnumerable'',
      ''toString'', ''valueOf'', ''__proto__'', ''toLocaleString'']"

datatype 'a property = Own 'a | Inherited string

definition getProperty :: "(string \<rightharpoonup> 'a) \<Rightarrow> string \<Rightarrow> 'a property option" where
  "getProperty obj key =
     (case obj key of
        Some v \<Rightarrow> Some (Own v)
      | None \<Rightarrow> if key \<in> set objectPrototypeMembers then Some (Inherited key) else None)"

subsection \<open>Output records and diagnostics\<close>

text \<open>
  The messages of the source, in its order of appearance:
  \<^item> \<open>CustomEnumDuplicateName id\<close>: "@customenum tag specifies a duplicate name: id"
  \<^item> \<open>UnknownEnumType id\<close>: "Unknown enum type defined after @customenum tag. ...: id"
  \<^item> \<open>EnumTypeMismatch id\<close>: "Enum type must match the enum type in annotation: id"
  \<^item> \<open>EnumValueTypeInconsistent id\<close>: "Enum value type must be consistent: id"
  \<^item> \<open>DuplicateFunctionName n\<close>: "Duplicate function name: n"
  \<^item> \<open>CustomFunctionDuplicateName n\<close>: "@customfunction tag specifies a duplicate name: n"
  \<^item> \<open>CustomFunctionDuplicateId i\<close>: "@customfunction tag specifies a duplicate id: i"
  \<^item> \<open>IdInvalidCharacters i\<close>: "The custom function id contains invalid characters. ...:i"
  \<^item> \<open>IdTooLong\<close>: "The custom function id exceeds the maximum of 128 characters allowed."
  \<^item> \<open>NameRequired t\<close>: "You need to provide a custom t name."
  \<^item> \<open>NameStartsWithLetter t n\<close>: "The custom t name "n" should start with an alphabetic character."
  \<^item> \<open>NameInvalidCharacters t n\<close>: "The custom t name "n" should contain only alphabetic characters, ..."
  \<^item> \<open>NameTooLong t n\<close>: "The custom t name "n" is too long. It must be 128 characters or less."
  \<^item> \<open>InvocationParameterRequired p\<close>: "Since p is present, the last function parameter should be of type CustomFunctions.Invocation :"
  \<^item> \<open>LinkedEntityLoadServiceConflict p\<close>: "p cannot be used with @linkedEntityLoadService."
  \<^item> \<open>StreamingHandlerResultType\<close>: "The 'CustomFunctions.StreamingHandler' needs to be passed in a single result type ..."
  \<^item> \<open>StreamingShouldReturnVoid\<close>: "A streaming function should return 'void'. ..."
  \<^item> \<open>ReturnTypeMismatch k j n\<close>: "Type {k:j} doesn't match for return type : n"
  \<^item> \<open>ParameterTypeMismatch j k n\<close>: "Type {j:k} doesn't match for parameter : n"
  \<^item> \<open>UnsupportedCellValueType n\<close>: "Custom function does not support cell value type: n"
  \<^item> \<open>UnsupportedType n\<close>: "Custom function does not support type "n" as input or return parameter."
  \<^item> \<open>TypeDoesNotMatchMappings\<close>: "Type doesn't match mappings"
\<close>

datatype diagnostic =
    CustomEnumDuplicateName string
  | UnknownEnumType string
  | EnumTypeMismatch string
  | EnumValueTypeInconsistent string
  | DuplicateFunctionName string
  | CustomFunctionDuplicateName string
  | CustomFunctionDuplicateId string
  | IdInvalidCharacters string
  | IdTooLong
  | NameRequired string
  | NameStartsWithLetter string string
  | NameInvalidCharacters string string
  | NameTooLong string string
  | InvocationParameterRequired string
  | LinkedEntityLoadServiceConflict string
  | StreamingHandlerResultType
  | StreamingShouldReturnVoid
  | ReturnTypeMismatch syntax_kind syntax_kind string
  | ParameterTypeMismatch syntax_kind syntax_kind "string option"
  | UnsupportedCellValueType string
  | UnsupportedType string
  | TypeDoesNotMatchMappings

text \<open>An exception that leaves \<^verbatim>\<open>parseTree\<close>.\<close>

datatype js_error = SyntaxError | TypeError

text \<open>
  The values an enum member can get: the running default (a number), or what
  \<^verbatim>\<open>JSON.parse\<close> makes of the initializer's text. A parsed number or string is kept as
  the JSON token that denotes it.
\<close>

datatype js_value =
    JSNumber nat
  | JSNumberToken string
  | JSStringToken string
  | JSBoolean
  | JSNull
  | JSObject

fun typeof :: "js_value \<Rightarrow> string" where
  "typeof (JSNumber _) = ''number''"
| "typeof (JSNumberToken _) = ''number''"
| "typeof (JSStringToken _) = ''string''"
| "typeof JSBoolean = ''boolean''"
| "typeof JSNull = ''object''"
| "typeof JSObject = ''object''"

record IEnumValue =
  value_name :: string
  value_value :: js_value
  value_tooltip :: string

record IEnum =
  enum_id :: string
  enum_type :: string
  enum_values :: "IEnumValue list"

record IParameterType =
  ptype_type :: "string option"
  ptype_customEnumType :: "string option"
  ptype_cellValueType :: "string property option"

record IFunctionResult =
  result_type :: "string option"
  result_dimensionality :: "string option"

text \<open>
  A parameter as emitted. A field the source deletes (\<^verbatim>\<open>dimensionality\<close> when scalar,
  \<^verbatim>\<open>optional\<close>, \<^verbatim>\<open>repeating\<close> and \<^verbatim>\<open>description\<close> when falsy) is \<open>None\<close>. The
  fields \<^verbatim>\<open>description\<close>, \<^verbatim>\<open>optional\<close> and \<^verbatim>\<open>cellValueType\<close> hold what a dictionary
  read gave.
\<close>

record IFunctionParameter =
  param_name :: "string option"
  param_description :: "string property option"
  param_type :: "string option"
  param_cellValueType :: "string property option"
  param_dimensionality :: "string option"
  param_optional :: "bool property option"
  param_repeating :: "bool option"
  param_customEnumType :: "string option"

text \<open>
  The options block. In the emitted block every flag that is false is deleted, so a flag
  is set in the output exactly when it is \<open>True\<close> here.
\<close>

record IFunctionOptions =
  cancelable :: bool
  requiresAddress :: bool
  requiresStreamAddress :: bool
  stream :: bool
  volatile :: bool
  requiresParameterAddresses :: bool
  requiresStreamParameterAddresses :: bool
  excludeFromAutoComplete :: bool
  linkedEntityLoadService :: bool
  capturesCallingObject :: bool

record IFunction =
  function_id :: string
  function_name :: string
  function_description :: "string option"
  function_helpUrl :: "string option"
  function_parameters :: "IFunctionParameter list"
  function_result :: "IFunctionResult option"
  function_options :: "IFunctionOptions option"

record IFunctionExtras =
  errors :: "diagnostic list"
  javascriptFunctionName :: string

record IAssociate =
  sourceFileName :: string
  functionName :: string
  associate_id :: string

record IJsDocParamType =
  jsdoc_type :: string
  jsdoc_returnType :: "string option"
  jsdoc_dimensionality :: "string option"

subsection \<open>Constant tables\<close>

definition CUSTOM_ENUM :: string where "CUSTOM_ENUM = ''customenum''"
definition CUSTOM_FUNCTION :: string where "CUSTOM_FUNCTION = ''customfunction''"
definition HELPURL_PARAM :: string where "HELPURL_PARAM = ''helpurl''"

definition TYPE_MAPPINGS :: "syntax_kind \<Rightarrow> string option" where
  "TYPE_MAPPINGS k =
     (case k of
        OtherKind NumberKeyword \<Rightarrow> Some ''number''
      | OtherKind StringKeyword \<Rightarrow> Some ''string''
      | OtherKind BooleanKeyword \<Rightarrow> Some ''boolean''
      | OtherKind AnyKeyword \<Rightarrow> Some ''any''
      | OtherKind UnionType \<Rightarrow> Some ''any''
      | OtherKind TupleType \<Rightarrow> Some ''any''
      | OtherKind EnumKeyword \<Rightarrow> Some ''any''
      | OtherKind ObjectKeyword \<Rightarrow> Some ''any''
      | OtherKind VoidKeyword \<Rightarrow> Some ''any''
      | OtherKind UnknownKeyword \<Rightarrow> Some ''any''
      | _ \<Rightarrow> None)"

definition TYPE_CUSTOM_FUNCTIONS_STREAMING :: "(string \<times> nat) list" where
  "TYPE_CUSTOM_FUNCTIONS_STREAMING =
     [(''customfunctions.streaminghandler'', 1), (''customfunctions.streaminginvocation'', 2)]"

definition TYPE_CUSTOM_FUNCTION_CANCELABLE :: "(string \<times> nat) list" where
  "TYPE_CUSTOM_FUNCTION_CANCELABLE =
     [(''customfunctions.cancelablehandler'', 1), (''customfunctions.cancelableinvocation'', 2)]"

definition TYPE_CUSTOM_FUNCTION_INVOCATION :: string where
  "TYPE_CUSTOM_FUNCTION_INVOCATION = ''customfunctions.invocation''"

definition CELLVALUETYPE_MAPPINGS :: "(string \<times> string) list" where
  "CELLVALUETYPE_MAPPINGS =
     [(''Excel.CellValue'', ''cellvalue''),
      (''Excel.BooleanCellValue'', ''booleancellvalue''),
      (''Excel.DoubleCellValue'', ''doublecellvalue''),
      (''Excel.EntityCellValue'', ''entitycellvalue''),
      (''Excel.ErrorCellValue'', ''errorcellvalue''),
      (''Excel.FormattedNumberCellValue'', ''formattednumbercellvalue''),
      (''Excel.LinkedEntityCellValue'', ''linkedentitycellvalue''),
      (''Excel.LocalImageCellValue'', ''localimagecellvalue''),
      (''Excel.StringCellValue'', ''stringcellvalue''),
      (''Excel.WebImageCellValue'', ''webimagecellvalue''),
      (''Excel.ArrayCellValue'', ''unsupported''),
      (''Excel.EmptyCellValue'', ''unsupported''),
      (''Excel.ReferenceCellValue'', ''unsupported''),
      (''Excel.ValueTypeNotAvailableCellValue'', ''unsupported'')]"

definition CELLVALUETYPE_TO_BASICTYPE_MAPPINGS :: "(string \<times> string) list" where
  "CELLVALUETYPE_TO_BASICTYPE_MAPPINGS =
     [(''cellvalue'', ''any''),
      (''booleancellvalue'', ''boolean''),
      (''doublecellvalue'', ''number''),
      (''entitycellvalue'', ''any''),
      (''errorcellvalue'', ''any''),
      (''formattednumbercellvalue'', ''number''),
      (''linkedentitycellvalue'', ''any''),
      (''localimagecellvalue'', ''any''),
      (''stringcellvalue'', ''string''),
      (''webimagecellvalue'', ''any'')]"

subsection \<open>Resolving a type node\<close>

text \<open>
  getParamType returns the resolved type together with the diagnostics it pushes onto
  \<^verbatim>\<open>extra.errors\<close>. When \<^verbatim>\<open>CELLVALUETYPE_MAPPINGS[nodeTypeName]\<close> is an inherited
  value, that value is truthy and is not \<^verbatim>\<open>"unsupported"\<close>, and as a key of
  \<^verbatim>\<open>CELLVALUETYPE_TO_BASICTYPE_MAPPINGS\<close> it finds nothing: the type is undefined. The
  keys read from \<^verbatim>\<open>CELLVALUETYPE_TO_BASICTYPE_MAPPINGS\<close> otherwise are values of
  \<^verbatim>\<open>CELLVALUETYPE_MAPPINGS\<close>, none of which is the name of an inherited member.
\<close>

definition getParamType ::
  "type_node option \<Rightarrow> string list \<Rightarrow> IEnum list \<Rightarrow> IParameterType \<times> diagnostic list" where
  "getParamType node0 basicEnums customEnums =
     (let any = \<lparr>ptype_type = Some ''any'', ptype_customEnumType = None, ptype_cellValueType = None\<rparr> in
      case node0 of
        None \<Rightarrow> (any, [])
      | Some n0 \<Rightarrow>
          (let node = (if typeNodeIsArray n0 then array_node (getArrayDimensionalityAndType n0) else n0) in
           case node of
             TypeReferenceNode nodeTypeName _ \<Rightarrow>
               if nodeTypeName \<in> set basicEnums then (any, [])
               else (case find (\<lambda>enumItem. enum_id enumItem = nodeTypeName) customEnums of
                  Some enumItem \<Rightarrow>
                    (\<lparr>ptype_type = Some (enum_type enumItem), ptype_customEnumType = Some nodeTypeName,
                      ptype_cellValueType = None\<rparr>, [])
                | None \<Rightarrow>
                    (case getProperty (map_of CELLVALUETYPE_MAPPINGS) nodeTypeName of
                       Some (Own cellValue) \<Rightarrow>
                         if cellValue = ''unsupported''
                         then (any, [UnsupportedCellValueType nodeTypeName])
                         else (\<lparr>ptype_type = map_of CELLVALUETYPE_TO_BASICTYPE_MAPPINGS cellValue,
                                ptype_customEnumType = None,
                                ptype_cellValueType = Some (Own cellValue)\<rparr>, [])
                     | Some (Inherited member) \<Rightarrow>
                         (\<lparr>ptype_type = None, ptype_customEnumType = None,
                           ptype_cellValueType = Some (Inherited member)\<rparr>, [])
                     | None \<Rightarrow> (any, [UnsupportedType nodeTypeName])))
           | _ \<Rightarrow>
               (case TYPE_MAPPINGS (kind node) of
                  Some t \<Rightarrow> (\<lparr>ptype_type = Some t, ptype_customEnumType = None, ptype_cellValueType = None\<rparr>, [])
                | None \<Rightarrow>
                    (\<lparr>ptype_type = None, ptype_customEnumType = None, ptype_cellValueType = None\<rparr>,
                     [TypeDoesNotMatchMappings]))))"

subsection \<open>Names, ids and duplicates\<close>

text \<open>
  areStringsEqual is always called with two strings and with \<^verbatim>\<open>ignoreCase\<close> left at
  its default: \<^verbatim>\<open>first.localeCompare(second, undefined, { sensitivity: "accent" }) === 0\<close>,
  which on ASCII text without control characters is equality up to letter case.
\<close>

definition areStringsEqual :: "string \<Rightarrow> string \<Rightarrow> bool" where
  "areStringsEqual first second = (toLowerCase first = toLowerCase second)"

definition checkForDuplicate :: "string list \<Rightarrow> string \<Rightarrow> bool" where
  "checkForDuplicate list itm = fold (\<lambda>v duplicate. if areStringsEqual v itm then True else duplicate) list False"

text \<open>The pattern \<^verbatim>\<open>^[a-zA-Z0-9._]*$\<close>.\<close>

definition idRegEx :: "string \<Rightarrow> bool" where
  "idRegEx s = list_all (\<lambda>c. isLetter c \<or> isDigit c \<or> c = CHR ''.'' \<or> c = CHR ''_'') s"

definition validateId :: "string \<Rightarrow> diagnostic list" where
  "validateId id0 =
     (let bad = \<not> idRegEx id0;
          id1 = (if bad \<and> id0 = [] then ''Function name is invalid'' else id0)
      in (if bad then [IdInvalidCharacters id1] else [])
         @ (if 128 < length id1 then [IdTooLong] else []))"

text \<open>The patterns \<^verbatim>\<open>^[\pL]\<close> and \<^verbatim>\<open>^[\pL][\pL0-9._]*$\<close>, on ASCII letters.\<close>

definition startsWithLetterRegEx :: "string \<Rightarrow> bool" where
  "startsWithLetterRegEx s = (case s of [] \<Rightarrow> False | c # _ \<Rightarrow> isLetter c)"

definition validNameRegEx :: "string \<Rightarrow> bool" where
  "validNameRegEx s =
     (case s of
        [] \<Rightarrow> False
      | c # cs \<Rightarrow> isLetter c \<and> list_all (\<lambda>c. isLetter c \<or> isDigit c \<or> c = CHR ''.'' \<or> c = CHR ''_'') cs)"

definition validateName :: "string \<Rightarrow> string \<Rightarrow> diagnostic list" where
  "validateName name type =
     (if name = [] then [NameRequired type] else [])
     @ (if \<not> startsWithLetterRegEx name then [NameStartsWithLetter type name]
        else if \<not> validNameRegEx name then [NameInvalidCharacters type name]
        else [])
     @ (if 128 < length name then [NameTooLong type name] else [])"

definition normalizeCustomFunctionId :: "string \<Rightarrow> string" where
  "normalizeCustomFunctionId i = (if i \<noteq> [] then toLocaleUpperCase i else i)"

subsection \<open>Declarations of the syntax tree\<close>

text \<open>
  A doc-comment tag as \<^verbatim>\<open>ts.getJSDocTags\<close> lists it: the tag name and, if the tag
  has a comment, the text \<^verbatim>\<open>comment.toString()\<close> gives.
\<close>

record JSDocTag =
  tagName :: string
  tag_comment :: "string option"

text \<open>
  A \<^verbatim>\<open>@param\<close> tag as \<^verbatim>\<open>ts.getAllJSDocTagsOfKind\<close> lists it: the full text of its
  name, the text \<^verbatim>\<open>comment.toString()\<close> gives if it has a comment, the full text of
  its type expression (braces included), and whether the name is bracketed.
\<close>

record JSDocParameterTag =
  ptag_name :: string
  ptag_comment :: "string option"
  ptag_typeExpression :: "string option"
  ptag_isBracketed :: bool

text \<open>
  A parameter: the text of its name (\<open>None\<close> for a binding pattern, whose \<^verbatim>\<open>text\<close> is
  undefined), its declared type, whether it has a question token, an initializer or a
  rest token, and the type node \<^verbatim>\<open>ts.getJSDocType\<close> finds for it.
\<close>

record ParameterDeclaration =
  parameter_name :: "string option"
  parameter_type :: "type_node option"
  questionToken :: bool
  initializer :: bool
  dotDotDotToken :: bool
  parameter_jsDocType :: "type_node option"

text \<open>
  The \<^verbatim>\<open>comment\<close> of a doc comment: a string, or, when the comment holds an inline
  tag such as \<^verbatim>\<open>{@link ...}\<close>, an array of comment nodes.
\<close>

datatype jsdoc_comment = CommentText string | CommentNodes

text \<open>
  A function declaration: its name, parameters and declared return type; the comments
  of the doc comments attached to it (\<^verbatim>\<open>node.jsDoc\<close>, \<open>None\<close> when there is no doc
  comment; the comment of a doc comment is \<open>None\<close> when it is undefined); its tags; its
  \<^verbatim>\<open>@param\<close> tags; and the type of its \<^verbatim>\<open>@returns\<close> tag
  (\<^verbatim>\<open>ts.getJSDocReturnType\<close>).
\<close>

record FunctionDeclaration =
  declaration_name :: "string option"
  parameters :: "ParameterDeclaration list"
  return_type :: "type_node option"
  jsDoc :: "jsdoc_comment option list option"
  jsDocTags :: "JSDocTag list"
  jsDocParameterTags :: "JSDocParameterTag list"
  jsDocReturnType :: "type_node option"

text \<open>
  An enum member: the text of its name, the text of its initializer if it has one, and
  the tooltip the source cuts out of the comments before it.
\<close>

record EnumMember =
  member_name :: string
  member_initializer :: "string option"
  member_tooltip :: string

record EnumDeclaration =
  enum_name :: string
  members :: "EnumMember list"
  enum_jsDocTags :: "JSDocTag list"

text \<open>
  A node of the tree with its children in source order. Only function and enum
  declarations are told apart; the walks pass through every other node.
\<close>

datatype node =
    FunctionDeclarationNode FunctionDeclaration "node list"
  | EnumDeclarationNode EnumDeclaration "node list"
  | OtherNode "node list"

subsection \<open>Doc-comment tags\<close>

text \<open>The node argument of the tag helpers is the tag list of the node.\<close>

definition containsTag :: "JSDocTag \<Rightarrow> string \<Rightarrow> bool" where
  "containsTag tag name = (toLowerCase (tagName tag) = name)"

definition findTag :: "JSDocTag list \<Rightarrow> string \<Rightarrow> JSDocTag option" where
  "findTag tags name = find (\<lambda>tag. containsTag tag name) tags"

definition getTagComment :: "JSDocTag list \<Rightarrow> string \<Rightarrow> string" where
  "getTagComment tags name =
     (case findTag tags name of
        None \<Rightarrow> []
      | Some tag \<Rightarrow> (case tag_comment tag of None \<Rightarrow> [] | Some c \<Rightarrow> c))"

definition hasTag :: "JSDocTag list \<Rightarrow> string \<Rightarrow> bool" where
  "hasTag tags name = (findTag tags name \<noteq> None)"

definition isCustomFunction :: "JSDocTag list \<Rightarrow> bool" where
  "isCustomFunction tags = hasTag tags CUSTOM_FUNCTION"

definition isCustomEnum :: "JSDocTag list \<Rightarrow> bool" where
  "isCustomEnum tags = hasTag tags CUSTOM_ENUM"

definition isVolatile :: "JSDocTag list \<Rightarrow> bool" where
  "isVolatile tags = hasTag tags ''volatile''"

definition isAddressRequired :: "JSDocTag list \<Rightarrow> bool" where
  "isAddressRequired tags = hasTag tags ''requiresaddress''"

definition isRequiresParameterAddresses :: "JSDocTag list \<Rightarrow> bool" where
  "isRequiresParameterAddresses tags = hasTag tags ''requiresparameteraddresses''"

definition isExcludedFromAutoComplete :: "JSDocTag list \<Rightarrow> bool" where
  "isExcludedFromAutoComplete tags = hasTag tags ''excludefromautocomplete''"

definition isLinkedEntityLoadService :: "JSDocTag list \<Rightarrow> bool" where
  "isLinkedEntityLoadService tags = hasTag tags ''linkedentityloadservice''"

definition capturesCallingObjectTag :: "JSDocTag list \<Rightarrow> bool" where
  "capturesCallingObjectTag tags = hasTag tags ''capturescallingobject''"

definition isStreaming :: "JSDocTag list \<Rightarrow> bool \<Rightarrow> bool" where
  "isStreaming tags streamFunction = (streamFunction \<or> hasTag tags ''streaming'')"

definition isCancelableTag :: "JSDocTag list \<Rightarrow> bool \<Rightarrow> bool" where
  "isCancelableTag tags cancelableFunction = (cancelableFunction \<or> hasTag tags ''cancelable'')"

text \<open>
  The three tables built from the \<^verbatim>\<open>@param\<close> tags. A later tag of the same name
  overwrites an earlier one. A parameter whose name text is undefined reads the key
  \<^verbatim>\<open>"undefined"\<close>.

  An assignment to the key \<^verbatim>\<open>__proto__\<close> goes to the setter of \<^verbatim>\<open>Object.prototype\<close>:
  a string or a boolean is dropped, and an object becomes the prototype of the table. So
  a tag of that name leaves no entry in the table of descriptions and in the table of
  optional flags. In the table of types its entry is kept under that name, where a read
  finds it, and getParamTypeInfo, the read of that table, also finds the properties
  that the table inherits from it.
\<close>

definition propertyKey :: "string option \<Rightarrow> string" where
  "propertyKey name = (case name of None \<Rightarrow> ''undefined'' | Some n \<Rightarrow> n)"

definition getJSDocParams :: "JSDocParameterTag list \<Rightarrow> (string \<rightharpoonup> string)" where
  "getJSDocParams tags =
     fold (\<lambda>tag info.
        if ptag_name tag = ''__proto__'' then info
        else
          (case ptag_comment tag of
             None \<Rightarrow> info(ptag_name tag \<mapsto> [])
           | Some tagComment \<Rightarrow>
               if tagComment = [] then info(ptag_name tag \<mapsto> [])
               else info(ptag_name tag \<mapsto>
                 trim (if take 1 tagComment = ''-'' then slice tagComment 1 (int (length tagComment))
                       else tagComment))))
       tags Map.empty"

definition jsDocParamType :: "string \<Rightarrow> IJsDocParamType" where
  "jsDocParamType fullText =
     (let paramType = slice fullText 1 (int (length fullText) - 1);
          openBracket = indexOf paramType (CHR ''<'')
      in if -1 < openBracket
         then (let subType = slice paramType (openBracket + 1) (int (length paramType) - 1);
                   dimCount = length (filter (\<lambda>c. c = CHR ''['') subType)
               in if 0 < dimCount
                  then \<lparr>jsdoc_type = slice paramType 0 openBracket,
                        jsdoc_returnType = Some (slice subType 0 (indexOf subType (CHR ''[''))),
                        jsdoc_dimensionality = Some (if dimCount = 1 then ''scalar'' else ''matrix'')\<rparr>
                  else \<lparr>jsdoc_type = slice paramType 0 openBracket,
                        jsdoc_returnType = Some subType,
                        jsdoc_dimensionality = None\<rparr>)
         else \<lparr>jsdoc_type = paramType, jsdoc_returnType = None, jsdoc_dimensionality = None\<rparr>)"

definition getJSDocParamsType :: "JSDocParameterTag list \<Rightarrow> (string \<rightharpoonup> IJsDocParamType)" where
  "getJSDocParamsType tags =
     fold (\<lambda>tag info.
        case ptag_typeExpression tag of
          Some fullText \<Rightarrow> info(ptag_name tag \<mapsto> jsDocParamType fullText)
        | None \<Rightarrow> info(ptag_name tag \<mapsto>
            \<lparr>jsdoc_type = ''any'', jsdoc_returnType = None, jsdoc_dimensionality = None\<rparr>))
       tags Map.empty"

definition getJSDocParamsOptionalType :: "JSDocParameterTag list \<Rightarrow> (string \<rightharpoonup> bool)" where
  "getJSDocParamsOptionalType tags =
     fold (\<lambda>tag info.
        if ptag_name tag = ''__proto__'' then info
        else info(ptag_name tag \<mapsto> ptag_isBracketed tag))
       tags Map.empty"

text \<open>
  \<^verbatim>\<open>jsDocParamTypeInfo[key]\<close>. The properties of the entry of a tag named
  \<^verbatim>\<open>__proto__\<close> are inherited by the table: \<^verbatim>\<open>type\<close> always, \<^verbatim>\<open>returnType\<close> and
  \<^verbatim>\<open>dimensionality\<close> when the entry has them. They are strings.
\<close>

definition getParamTypeInfo ::
  "(string \<rightharpoonup> IJsDocParamType) \<Rightarrow> string \<Rightarrow> IJsDocParamType property option" where
  "getParamTypeInfo jsDocParamTypeInfo key =
     (case getProperty jsDocParamTypeInfo key of
        Some found \<Rightarrow> Some found
      | None \<Rightarrow>
          (case jsDocParamTypeInfo ''__proto__'' of
             None \<Rightarrow> None
           | Some proto \<Rightarrow>
               if key = ''type'' then Some (Inherited key)
               else if key = ''returnType''
               then (case jsdoc_returnType proto of None \<Rightarrow> None | Some _ \<Rightarrow> Some (Inherited key))
               else if key = ''dimensionality''
               then (case jsdoc_dimensionality proto of None \<Rightarrow> None | Some _ \<Rightarrow> Some (Inherited key))
               else None))"

subsection \<open>The role of the last parameter\<close>

text \<open>
  The type name the doc comment gives the parameter: the lookup the three role tests
  share (\<^verbatim>\<open>name && jsDocParamTypeInfo[name]\<close>, then a non-empty \<^verbatim>\<open>type\<close>). An
  inherited value has no \<^verbatim>\<open>type\<close>. In the tables of streaming and cancelable type
  names every own value and every inherited value is truthy.
\<close>

definition jsDocTypeName ::
  "ParameterDeclaration option \<Rightarrow> (string \<rightharpoonup> IJsDocParamType) \<Rightarrow> string option" where
  "jsDocTypeName param jsDocParamTypeInfo =
     (case param of
        None \<Rightarrow> None
      | Some p \<Rightarrow>
          (case parameter_name p of
             None \<Rightarrow> None
           | Some name \<Rightarrow>
               if name = [] then None
               else (case getParamTypeInfo jsDocParamTypeInfo name of
                  Some (Own info) \<Rightarrow> if jsdoc_type info = [] then None else Some (jsdoc_type info)
                | _ \<Rightarrow> None)))"

text \<open>The name of the parameter's declared type when that is a type reference.\<close>

definition typeReferenceName :: "ParameterDeclaration option \<Rightarrow> string option" where
  "typeReferenceName param =
     (case param of
        None \<Rightarrow> None
      | Some p \<Rightarrow>
          (case parameter_type p of
             Some (TypeReferenceNode typeName _) \<Rightarrow> Some typeName
           | _ \<Rightarrow> None))"

definition hasStreamingInvocationParameter ::
  "ParameterDeclaration option \<Rightarrow> (string \<rightharpoonup> IJsDocParamType) \<Rightarrow> bool" where
  "hasStreamingInvocationParameter param jsDocParamTypeInfo =
     (case jsDocTypeName param jsDocParamTypeInfo of
        Some ptype \<Rightarrow>
          if getProperty (map_of TYPE_CUSTOM_FUNCTIONS_STREAMING) (toLowerCase ptype) \<noteq> None then True
          else (case typeReferenceName param of
             None \<Rightarrow> False
           | Some typeName \<Rightarrow>
               typeName = ''CustomFunctions.StreamingInvocation''
               \<or> typeName = ''CustomFunctions.StreamingHandler''
               \<or> typeName = ''IStreamingCustomFunctionHandler'')
      | None \<Rightarrow>
          (case typeReferenceName param of
             None \<Rightarrow> False
           | Some typeName \<Rightarrow>
               typeName = ''CustomFunctions.StreamingInvocation''
               \<or> typeName = ''CustomFunctions.StreamingHandler''
               \<or> typeName = ''IStreamingCustomFunctionHandler''))"

definition hasCancelableInvocationParameter ::
  "ParameterDeclaration option \<Rightarrow> (string \<rightharpoonup> IJsDocParamType) \<Rightarrow> bool" where
  "hasCancelableInvocationParameter param jsDocParamTypeInfo =
     (case jsDocTypeName param jsDocParamTypeInfo of
        Some ptype \<Rightarrow>
          if getProperty (map_of TYPE_CUSTOM_FUNCTION_CANCELABLE) (toLowerCase ptype) \<noteq> None then True
          else (case typeReferenceName param of
             None \<Rightarrow> False
           | Some typeName \<Rightarrow>
               typeName = ''CustomFunctions.CancelableHandler''
               \<or> typeName = ''CustomFunctions.CancelableInvocation'')
      | None \<Rightarrow>
          (case typeReferenceName param of
             None \<Rightarrow> False
           | Some typeName \<Rightarrow>
               typeName = ''CustomFunctions.CancelableHandler''
               \<or> typeName = ''CustomFunctions.CancelableInvocation''))"

definition hasInvocationParameter ::
  "ParameterDeclaration option \<Rightarrow> (string \<rightharpoonup> IJsDocParamType) \<Rightarrow> bool" where
  "hasInvocationParameter param jsDocParamTypeInfo =
     (case jsDocTypeName param jsDocParamTypeInfo of
        Some ptype \<Rightarrow>
          if toLowerCase ptype = TYPE_CUSTOM_FUNCTION_INVOCATION then True
          else (case typeReferenceName param of
             None \<Rightarrow> False
           | Some typeName \<Rightarrow> typeName = ''CustomFunctions.Invocation'')
      | None \<Rightarrow>
          (case typeReferenceName param of
             None \<Rightarrow> False
           | Some typeName \<Rightarrow> typeName = ''CustomFunctions.Invocation''))"

subsection \<open>Options\<close>

text \<open>getOptions returns the flags together with the diagnostics it pushes.\<close>

definition getOptions ::
  "FunctionDeclaration \<Rightarrow> bool \<Rightarrow> bool \<Rightarrow> bool \<Rightarrow> IFunctionOptions \<times> diagnostic list" where
  "getOptions func isStreamingFunction isCancelableFunction isInvocationFunction =
     (let tags = jsDocTags func;
          optionsItem =
            \<lparr>cancelable = isCancelableTag tags isCancelableFunction,
             requiresAddress = (isAddressRequired tags \<and> \<not> isStreaming tags isStreamingFunction),
             requiresStreamAddress = (isAddressRequired tags \<and> isStreaming tags isStreamingFunction),
             stream = isStreaming tags isStreamingFunction,
             volatile = isVolatile tags,
             requiresParameterAddresses =
               (isRequiresParameterAddresses tags \<and> \<not> isStreaming tags isStreamingFunction),
             requiresStreamParameterAddresses =
               (isRequiresParameterAddresses tags \<and> isStreaming tags isStreamingFunction),
             excludeFromAutoComplete = isExcludedFromAutoComplete tags,
             linkedEntityLoadService = isLinkedEntityLoadService tags,
             capturesCallingObject = capturesCallingObjectTag tags\<rparr>;
          addressErrors =
            (if isAddressRequired tags \<or> isRequiresParameterAddresses tags
             then (let errorParam = (if isAddressRequired tags then ''@requiresAddress''
                                     else ''@requiresParameterAddresses'')
                   in if isStreamingFunction \<or> isCancelableFunction \<or> isInvocationFunction then []
                      else [InvocationParameterRequired errorParam])
             else []);
          linkedErrors =
            (if linkedEntityLoadService optionsItem
                \<and> (excludeFromAutoComplete optionsItem \<or> volatile optionsItem \<or> stream optionsItem
                     \<or> requiresAddress optionsItem \<or> requiresParameterAddresses optionsItem
                     \<or> capturesCallingObject optionsItem)
             then [LinkedEntityLoadServiceConflict
                     (if excludeFromAutoComplete optionsItem then ''@excludeFromAutoComplete''
                      else if volatile optionsItem then ''@volatile''
                      else if stream optionsItem then ''@streaming''
                      else if requiresAddress optionsItem then ''@requiresAddress''
                      else if requiresParameterAddresses optionsItem then ''@requiresParameterAddresses''
                      else if capturesCallingObject optionsItem then ''@capturesCallingObject''
                      else [])]
             else [])
      in (optionsItem, addressErrors @ linkedErrors))"

subsection \<open>Result\<close>

definition defaultResultItem :: IFunctionResult where
  "defaultResultItem = \<lparr>result_type = Some ''any'', result_dimensionality = Some ''scalar''\<rparr>"

text \<open>
  A type written \<^verbatim>\<open>Promise<T>\<close> with exactly one type argument stands for \<^verbatim>\<open>T\<close>;
  any other type stands for itself.
\<close>

fun unwrapPromise :: "type_node \<Rightarrow> type_node" where
  "unwrapPromise (TypeReferenceNode n (Some [a])) =
     (if n = ''Promise'' then a else TypeReferenceNode n (Some [a]))"
| "unwrapPromise t = t"

text \<open>
  The tail of getResults, after the result type and dimensionality are known. The item
  is built from the two values first; the test against the values of
  \<^verbatim>\<open>CELLVALUETYPE_MAPPINGS\<close> then changes the local \<^verbatim>\<open>resultType\<close> only, which decides
  whether the \<^verbatim>\<open>type\<close> field is deleted.
\<close>

definition finishResult :: "string option \<Rightarrow> string \<Rightarrow> IFunctionResult" where
  "finishResult resultType0 resultDim =
     (let resultItem = \<lparr>result_type = resultType0, result_dimensionality = Some resultDim\<rparr>;
          resultType = (case resultType0 of
                          None \<Rightarrow> None
                        | Some t \<Rightarrow> if t \<in> set (map snd CELLVALUETYPE_MAPPINGS) then Some ''any'' else Some t);
          resultItem1 = (if resultDim = ''scalar''
                         then resultItem\<lparr>result_dimensionality := None\<rparr> else resultItem)
      in if resultType = Some ''any'' then resultItem1\<lparr>result_type := None\<rparr> else resultItem1)"

text \<open>
  getResults. It fails with a TypeError where the source reads a property of
  \<^verbatim>\<open>undefined\<close>: the type of a missing last parameter, the doc entry of a streaming
  parameter that has none, the name of an unnamed function in the mismatch message. An
  inherited value in the place of the doc entry has neither \<^verbatim>\<open>returnType\<close> nor
  \<^verbatim>\<open>dimensionality\<close>. The text of the return type is compared with \<^verbatim>\<open>void\<close>; that
  text is the void keyword.
\<close>

definition getResults ::
  "FunctionDeclaration \<Rightarrow> bool \<Rightarrow> ParameterDeclaration option \<Rightarrow> (string \<rightharpoonup> IJsDocParamType)
   \<Rightarrow> string list \<Rightarrow> IEnum list \<Rightarrow> js_error + (IFunctionResult \<times> diagnostic list)" where
  "getResults func isStreamingFunction lastParameter jsDocParamTypeInfo basicEnums customEnums =
     (let fromSignature =
            (if isStreamingFunction then
               (case lastParameter of
                  None \<Rightarrow> Inl TypeError
                | Some lp \<Rightarrow>
                    (case parameter_type lp of
                       None \<Rightarrow>
                         (case getParamTypeInfo jsDocParamTypeInfo (propertyKey (parameter_name lp)) of
                            None \<Rightarrow> Inl TypeError
                          | Some (Own ptype) \<Rightarrow>
                              Inr (Inl (\<lparr>result_type = jsdoc_returnType ptype,
                                         result_dimensionality =
                                           (if jsdoc_dimensionality ptype = Some ''scalar'' then None
                                            else jsdoc_dimensionality ptype)\<rparr>, []))
                          | Some (Inherited member) \<Rightarrow>
                              Inr (Inl (\<lparr>result_type = None, result_dimensionality = None\<rparr>, [])))
                     | Some lastParameterType \<Rightarrow>
                         (case lastParameterType of
                            TypeReferenceNode _ (Some [typeArgument]) \<Rightarrow>
                              if return_type func \<noteq> None
                                 \<and> return_type func \<noteq> Some (OtherTypeNode VoidKeyword)
                              then Inr (Inl (defaultResultItem, [StreamingShouldReturnVoid]))
                              else (let r = getParamType (Some typeArgument) basicEnums customEnums
                                    in Inr (Inr (ptype_type (fst r), getParamDim (Some typeArgument), snd r)))
                          | _ \<Rightarrow> Inr (Inl (defaultResultItem, [StreamingHandlerResultType])))))
             else
               (case return_type func of
                  None \<Rightarrow> Inr (Inr (Some ''any'', ''scalar'', []))
                | Some t \<Rightarrow>
                    (let r = getParamType (Some (unwrapPromise t)) basicEnums customEnums
                     in Inr (Inr (ptype_type (fst r), getParamDim (Some (unwrapPromise t)), snd r)))))
      in case fromSignature of
           Inl e \<Rightarrow> Inl e
         | Inr (Inl returned) \<Rightarrow> Inr returned
         | Inr (Inr (resultType, resultDim, errs)) \<Rightarrow>
             (case jsDocReturnType func of
                None \<Rightarrow> Inr (finishResult resultType resultDim, errs)
              | Some returnTypeFromJSDoc \<Rightarrow>
                  (let mismatch =
                         (case return_type func of
                            None \<Rightarrow> Inr []
                          | Some t \<Rightarrow>
                              if kind t \<noteq> kind returnTypeFromJSDoc
                              then (case declaration_name func of
                                      None \<Rightarrow> Inl TypeError
                                    | Some name \<Rightarrow>
                                        Inr [ReturnTypeMismatch (kind t) (kind returnTypeFromJSDoc) name])
                              else Inr []);
                       r = getParamType (Some (unwrapPromise returnTypeFromJSDoc)) basicEnums customEnums
                   in case mismatch of
                        Inl e \<Rightarrow> Inl e
                      | Inr mismatchErrors \<Rightarrow>
                          Inr (finishResult (ptype_type (fst r))
                                 (getParamDim (Some (unwrapPromise returnTypeFromJSDoc))),
                               errs @ mismatchErrors @ snd r))))"

subsection \<open>Parameters\<close>

text \<open>
  getParamOptional returns \<^verbatim>\<open>true\<close> or what the read of the table gives.
\<close>

definition getParamOptional ::
  "ParameterDeclaration \<Rightarrow> (string \<rightharpoonup> bool) \<Rightarrow> bool property option" where
  "getParamOptional p jsDocParamOptionalInfo =
     (if questionToken p \<or> initializer p \<or> dotDotDotToken p then Some (Own True)
      else getProperty jsDocParamOptionalInfo (propertyKey (parameter_name p)))"

text \<open>The body of the \<^verbatim>\<open>map\<close> callback of getParameters, for one parameter.\<close>

definition getParameter ::
  "string list \<Rightarrow> IEnum list \<Rightarrow> (string \<rightharpoonup> string) \<Rightarrow> (string \<rightharpoonup> bool)
   \<Rightarrow> ParameterDeclaration \<Rightarrow> IFunctionParameter \<times> diagnostic list" where
  "getParameter basicEnums customEnums jsDocParamInfo jsDocParamOptionalInfo p =
     (let name = parameter_name p;
          parameterJSDocTypeNode = parameter_jsDocType p;
          mismatch =
            (case (parameterJSDocTypeNode, parameter_type p) of
               (Some j, Some t) \<Rightarrow>
                 if kind j \<noteq> kind t then [ParameterTypeMismatch (kind j) (kind t) name] else []
             | _ \<Rightarrow> []);
          typeNode = (if parameter_type p = None then parameterJSDocTypeNode else parameter_type p);
          r = getParamType typeNode basicEnums customEnums;
          description = getProperty jsDocParamInfo (propertyKey name);
          optional = getParamOptional p jsDocParamOptionalInfo
      in (\<lparr>param_name = name,
           param_description = (if description = Some (Own []) then None else description),
           param_type = ptype_type (fst r),
           param_cellValueType = ptype_cellValueType (fst r),
           param_dimensionality =
             (if getParamDim typeNode = ''scalar'' then None else Some (getParamDim typeNode)),
           param_optional = (if optional = Some (Own False) then None else optional),
           param_repeating = (if isRepeatingParameter typeNode then Some True else None),
           param_customEnumType = ptype_customEnumType (fst r)\<rparr>,
          mismatch @ snd r))"

definition getParameters ::
  "string list \<Rightarrow> IEnum list \<Rightarrow> (string \<rightharpoonup> string) \<Rightarrow> (string \<rightharpoonup> bool)
   \<Rightarrow> ParameterDeclaration list \<Rightarrow> IFunctionParameter list \<times> diagnostic list" where
  "getParameters basicEnums customEnums jsDocParamInfo jsDocParamOptionalInfo parametersToParse =
     (let items = map (getParameter basicEnums customEnums jsDocParamInfo jsDocParamOptionalInfo)
                    parametersToParse
      in (map fst items, concat (map snd items)))"

subsection \<open>Description and help URL\<close>

fun replaceLineEndings :: "string \<Rightarrow> string" where
  "replaceLineEndings [] = []"
| "replaceLineEndings [c] = [if c = CHR 0x0D then CHR 0x0A else c]"
| "replaceLineEndings (c # d # r) =
     (if c = CHR 0x0D \<and> d = CHR 0x0A then CHR 0x0A # replaceLineEndings r
      else if c = CHR 0x0D then CHR 0x0A # replaceLineEndings (d # r)
      else c # replaceLineEndings (d # r))"

definition normalizeLineEndings :: "string option \<Rightarrow> string option" where
  "normalizeLineEndings text =
     (case text of
        None \<Rightarrow> None
      | Some t \<Rightarrow> if t = [] then Some t else Some (replaceLineEndings t))"

text \<open>
  getDescription reads \<^verbatim>\<open>node.jsDoc[0]\<close>: a TypeError when the node has no doc comment.
  The comment goes to normalizeLineEndings as it is; an array of comment nodes is truthy
  and has no \<^verbatim>\<open>replace\<close> method, which is a TypeError too.
\<close>

definition getDescription :: "jsdoc_comment option list option \<Rightarrow> js_error + string option" where
  "getDescription docs =
     (case docs of
        None \<Rightarrow> Inl TypeError
      | Some [] \<Rightarrow> Inr (normalizeLineEndings (Some []))
      | Some (comment # _) \<Rightarrow>
          (case comment of
             None \<Rightarrow> Inr (normalizeLineEndings None)
           | Some (CommentText text) \<Rightarrow> Inr (normalizeLineEndings (Some text))
           | Some CommentNodes \<Rightarrow> Inl TypeError))"

subsection \<open>\<^verbatim>\<open>Number\<close> and \<^verbatim>\<open>JSON.parse\<close> on the text of an initializer\<close>

text \<open>
  \<^verbatim>\<open>isNaN(Number(text))\<close>, after the grammar of numeric strings: white space around, then
  nothing (the number 0), a hexadecimal, octal or binary integer, or a signed decimal
  literal (\<^verbatim>\<open>Infinity\<close> included). Anything else is NaN.
\<close>

definition isHexDigit :: "char \<Rightarrow> bool" where
  "isHexDigit c =
     (isDigit c \<or> (65 \<le> (of_char c :: nat) \<and> (of_char c :: nat) \<le> 70)
      \<or> (97 \<le> (of_char c :: nat) \<and> (of_char c :: nat) \<le> 102))"

definition isOctalDigit :: "char \<Rightarrow> bool" where
  "isOctalDigit c = (48 \<le> (of_char c :: nat) \<and> (of_char c :: nat) \<le> 55)"

definition isBinaryDigit :: "char \<Rightarrow> bool" where
  "isBinaryDigit c = (c = CHR ''0'' \<or> c = CHR ''1'')"

definition dropSign :: "string \<Rightarrow> string" where
  "dropSign s = (case s of [] \<Rightarrow> [] | c # r \<Rightarrow> if c = CHR ''+'' \<or> c = CHR ''-'' then r else s)"

definition exponentPartOpt :: "string \<Rightarrow> bool" where
  "exponentPartOpt s =
     (case s of
        [] \<Rightarrow> True
      | c # r \<Rightarrow> (c = CHR ''e'' \<or> c = CHR ''E'') \<and> dropSign r \<noteq> [] \<and> list_all isDigit (dropSign r))"

definition strUnsignedDecimalLiteral :: "string \<Rightarrow> bool" where
  "strUnsignedDecimalLiteral s =
     (s = ''Infinity''
      \<or> (let digits = takeWhile isDigit s; r = dropWhile isDigit s
         in case r of
              [] \<Rightarrow> digits \<noteq> []
            | c # r1 \<Rightarrow>
                if c = CHR ''.''
                then (digits \<noteq> [] \<or> takeWhile isDigit r1 \<noteq> []) \<and> exponentPartOpt (dropWhile isDigit r1)
                else digits \<noteq> [] \<and> exponentPartOpt r))"

definition nonDecimalIntegerLiteral :: "string \<Rightarrow> bool" where
  "nonDecimalIntegerLiteral s =
     (case s of
        z # x # ds \<Rightarrow>
          z = CHR ''0'' \<and> ds \<noteq> []
          \<and> (((x = CHR ''x'' \<or> x = CHR ''X'') \<and> list_all isHexDigit ds)
             \<or> ((x = CHR ''o'' \<or> x = CHR ''O'') \<and> list_all isOctalDigit ds)
             \<or> ((x = CHR ''b'' \<or> x = CHR ''B'') \<and> list_all isBinaryDigit ds))
      | _ \<Rightarrow> False)"

definition isNaN_Number :: "string \<Rightarrow> bool" where
  "isNaN_Number text =
     (let s = trim text
      in if s = [] then False
         else if nonDecimalIntegerLiteral s then False
         else if strUnsignedDecimalLiteral (dropSign s) then False
         else True)"

text \<open>
  \<^verbatim>\<open>JSON.parse(text)\<close>: a recogniser of the JSON grammar that reads the text one
  character at a time, with the stack of the arrays and objects that are open. The text
  is accepted when it ends after one complete value with nothing open; otherwise
  \<^verbatim>\<open>JSON.parse\<close> throws a SyntaxError.
\<close>

datatype json_context = InArray | InObject

datatype json_state =
    ExpectValue | ArrayStart | ObjectStart | ExpectKey | ExpectColon | AfterValue
  | InString bool | InEscape bool | InUnicode bool nat
  | NumberMinus | NumberZero | NumberInt | NumberDot | NumberFrac
  | NumberExp | NumberExpSign | NumberExpDigits
  | InLiteral string
  | Reject

definition isJsonWhiteSpace :: "char \<Rightarrow> bool" where
  "isJsonWhiteSpace c = (c = CHR '' '' \<or> c = CHR 0x09 \<or> c = CHR 0x0A \<or> c = CHR 0x0D)"

definition afterValue :: "char \<Rightarrow> json_context list \<Rightarrow> json_state \<times> json_context list" where
  "afterValue c stack =
     (if isJsonWhiteSpace c then (AfterValue, stack)
      else if c = CHR '','' then
        (case stack of
           [] \<Rightarrow> (Reject, stack)
         | InArray # _ \<Rightarrow> (ExpectValue, stack)
         | InObject # _ \<Rightarrow> (ExpectKey, stack))
      else if c = CHR '']'' then
        (case stack of InArray # r \<Rightarrow> (AfterValue, r) | _ \<Rightarrow> (Reject, stack))
      else if c = CHR ''}'' then
        (case stack of InObject # r \<Rightarrow> (AfterValue, r) | _ \<Rightarrow> (Reject, stack))
      else (Reject, stack))"

definition startValue :: "char \<Rightarrow> json_context list \<Rightarrow> json_state \<times> json_context list" where
  "startValue c stack =
     (if c = CHR 0x22 then (InString False, stack)
      else if c = CHR ''-'' then (NumberMinus, stack)
      else if c = CHR ''0'' then (NumberZero, stack)
      else if isDigit c then (NumberInt, stack)
      else if c = CHR ''t'' then (InLiteral ''rue'', stack)
      else if c = CHR ''f'' then (InLiteral ''alse'', stack)
      else if c = CHR ''n'' then (InLiteral ''ull'', stack)
      else if c = CHR ''['' then (ArrayStart, InArray # stack)
      else if c = CHR ''{'' then (ObjectStart, InObject # stack)
      else (Reject, stack))"

fun json_step :: "json_state \<times> json_context list \<Rightarrow> char \<Rightarrow> json_state \<times> json_context list" where
  "json_step (ExpectValue, stack) c =
     (if isJsonWhiteSpace c then (ExpectValue, stack) else startValue c stack)"
| "json_step (ArrayStart, stack) c =
     (if isJsonWhiteSpace c then (ArrayStart, stack)
      else if c = CHR '']'' then afterValue c stack
      else startValue c stack)"
| "json_step (ObjectStart, stack) c =
     (if isJsonWhiteSpace c then (ObjectStart, stack)
      else if c = CHR ''}'' then afterValue c stack
      else if c = CHR 0x22 then (InString True, stack)
      else (Reject, stack))"
| "json_step (ExpectKey, stack) c =
     (if isJsonWhiteSpace c then (ExpectKey, stack)
      else if c = CHR 0x22 then (InString True, stack)
      else (Reject, stack))"
| "json_step (ExpectColon, stack) c =
     (if isJsonWhiteSpace c then (ExpectColon, stack)
      else if c = CHR '':'' then (ExpectValue, stack)
      else (Reject, stack))"
| "json_step (AfterValue, stack) c = afterValue c stack"
| "json_step (InString isKey, stack) c =
     (if c = CHR 0x22 then (if isKey then ExpectColon else AfterValue, stack)
      else if c = CHR 0x5C then (InEscape isKey, stack)
      else if (of_char c :: nat) < 32 then (Reject, stack)
      else (InString isKey, stack))"
| "json_step (InEscape isKey, stack) c =
     (if c \<in> set [CHR 0x22, CHR 0x5C, CHR ''/'', CHR ''b'', CHR ''f'', CHR ''n'', CHR ''r'', CHR ''t'']
      then (InString isKey, stack)
      else if c = CHR ''u'' then (InUnicode isKey 4, stack)
      else (Reject, stack))"
| "json_step (InUnicode isKey n, stack) c =
     (if isHexDigit c then (if n \<le> 1 then InString isKey else InUnicode isKey (n - 1), stack)
      else (Reject, stack))"
| "json_step (NumberMinus, stack) c =
     (if c = CHR ''0'' then (NumberZero, stack)
      else if isDigit c then (NumberInt, stack)
      else (Reject, stack))"
| "json_step (NumberZero, stack) c =
     (if c = CHR ''.'' then (NumberDot, stack)
      else if c = CHR ''e'' \<or> c = CHR ''E'' then (NumberExp, stack)
      else afterValue c stack)"
| "json_step (NumberInt, stack) c =
     (if isDigit c then (NumberInt, stack)
      else if c = CHR ''.'' then (NumberDot, stack)
      else if c = CHR ''e'' \<or> c = CHR ''E'' then (NumberExp, stack)
      else afterValue c stack)"
| "json_step (NumberDot, stack) c =
     (if isDigit c then (NumberFrac, stack) else (Reject, stack))"
| "json_step (NumberFrac, stack) c =
     (if isDigit c then (NumberFrac, stack)
      else if c = CHR ''e'' \<or> c = CHR ''E'' then (NumberExp, stack)
      else afterValue c stack)"
| "json_step (NumberExp, stack) c =
     (if c = CHR ''+'' \<or> c = CHR ''-'' then (NumberExpSign, stack)
      else if isDigit c then (NumberExpDigits, stack)
      else (Reject, stack))"
| "json_step (NumberExpSign, stack) c =
     (if isDigit c then (NumberExpDigits, stack) else (Reject, stack))"
| "json_step (NumberExpDigits, stack) c =
     (if isDigit c then (NumberExpDigits, stack) else afterValue c stack)"
| "json_step (InLiteral [], stack) c = (Reject, stack)"
| "json_step (InLiteral (x # xs), stack) c =
     (if c = x then (if xs = [] then AfterValue else InLiteral xs, stack) else (Reject, stack))"
| "json_step (Reject, stack) c = (Reject, stack)"

definition json_accepts :: "string \<Rightarrow> bool" where
  "json_accepts text =
     (case foldl json_step (ExpectValue, []) text of
        (state, stack) \<Rightarrow>
          stack = [] \<and> state \<in> set [AfterValue, NumberZero, NumberInt, NumberFrac, NumberExpDigits])"

text \<open>
  The value: its kind is read off the first character of the accepted text; a number or
  a string is kept as its token. \<open>None\<close> is the SyntaxError.
\<close>

definition JSON_parse :: "string \<Rightarrow> js_value option" where
  "JSON_parse text =
     (if json_accepts text then
        (let token = rev (dropWhile isJsonWhiteSpace (rev (dropWhile isJsonWhiteSpace text)))
         in case token of
              [] \<Rightarrow> None
            | c # _ \<Rightarrow>
                Some (if c = CHR 0x22 then JSStringToken token
                      else if c = CHR ''['' \<or> c = CHR ''{'' then JSObject
                      else if c = CHR ''t'' \<or> c = CHR ''f'' then JSBoolean
                      else if c = CHR ''n'' then JSNull
                      else JSNumberToken token))
      else None)"

subsection \<open>The state of one extraction\<close>

text \<open>
  The lists \<^verbatim>\<open>parseTree\<close> declares and its inner functions push to
  (\<open>functionItems\<close> is the list \<^verbatim>\<open>functions\<close>).
\<close>

record parse_state =
  associate :: "IAssociate list"
  functionItems :: "IFunction list"
  extras :: "IFunctionExtras list"
  basicEnums :: "string list"
  customEnums :: "IEnum list"
  functionNames :: "string list"
  metadataFunctionNames :: "string list"
  metadataFunctionIds :: "string list"
  metadataEnumIds :: "string list"

definition initial_state :: parse_state where
  "initial_state =
     \<lparr>associate = [], functionItems = [], extras = [], basicEnums = [], customEnums = [],
      functionNames = [], metadataFunctionNames = [], metadataFunctionIds = [],
      metadataEnumIds = []\<rparr>"

record IParseTreeResult =
  result_associate :: "IAssociate list"
  result_extras :: "IFunctionExtras list"
  result_functions :: "IFunction list"
  result_enums :: "IEnum list"

text \<open>
  \<^verbatim>\<open>ts.forEachChild(node, cb)\<close> for a callback that returns nothing: the callback runs on
  every child in order. Once the callback has thrown, the exception is the result.
\<close>

abbreviation forEachChild :: "('n \<Rightarrow> 's \<Rightarrow> 'e + 's) \<Rightarrow> 'n list \<Rightarrow> 's \<Rightarrow> 'e + 's" where
  "forEachChild cb ns st \<equiv>
     fold (\<lambda>n r. case r of Inl e \<Rightarrow> Inl e | Inr s \<Rightarrow> cb n s) ns (Inr st)"

subsection \<open>Enums\<close>

text \<open>buildEnums: the names of all enum declarations without the \<^verbatim>\<open>@customenum\<close> tag.\<close>

fun buildEnums :: "node \<Rightarrow> string list \<Rightarrow> string list" where
  "buildEnums (EnumDeclarationNode ed children) names =
     fold buildEnums children
       (if isCustomEnum (enum_jsDocTags ed) then names else names @ [enum_name ed])"
| "buildEnums (FunctionDeclarationNode fd children) names = fold buildEnums children names"
| "buildEnums (OtherNode children) names = fold buildEnums children names"

text \<open>The pattern \<^verbatim>\<open>\{\s*(string|number)\s*\}\<close>: the group of the leftmost match.\<close>

definition matchEnumTypeHere :: "string \<Rightarrow> string option" where
  "matchEnumTypeHere s =
     (case s of
        [] \<Rightarrow> None
      | c # r \<Rightarrow>
          if c = CHR ''{'' then
            (let r1 = dropWhile isWhiteSpace r;
                 word = take 6 r1;
                 r2 = dropWhile isWhiteSpace (drop 6 r1)
             in if (word = ''string'' \<or> word = ''number'') \<and> take 1 r2 = ''}'' then Some word
                else None)
          else None)"

fun matchEnumType :: "string \<Rightarrow> string option" where
  "matchEnumType [] = None"
| "matchEnumType (c # r) =
     (case matchEnumTypeHere (c # r) of Some t \<Rightarrow> Some t | None \<Rightarrow> matchEnumType r)"

text \<open>
  The loop over the members. \<open>Inl SyntaxError\<close>: \<^verbatim>\<open>JSON.parse\<close> threw on an
  initializer; \<open>Inr None\<close>: a value of the wrong type ended the function early;
  \<open>Inr (Some values)\<close>: the loop ran to its end.
\<close>

fun enumValues ::
  "bool \<Rightarrow> nat \<Rightarrow> IEnumValue list \<Rightarrow> EnumMember list \<Rightarrow> js_error + IEnumValue list option" where
  "enumValues isNumberEnum defaultValueForNumberEnum values [] = Inr (Some values)"
| "enumValues isNumberEnum defaultValueForNumberEnum values (member # rest) =
     (case (case member_initializer member of
              None \<Rightarrow> Some (JSNumber defaultValueForNumberEnum, defaultValueForNumberEnum + 1)
            | Some text \<Rightarrow>
                (case JSON_parse text of
                   None \<Rightarrow> None
                 | Some v \<Rightarrow> Some (v, defaultValueForNumberEnum))) of
        None \<Rightarrow> Inl SyntaxError
      | Some (v, next_default) \<Rightarrow>
          if (isNumberEnum \<and> typeof v \<noteq> ''number'') \<or> (\<not> isNumberEnum \<and> typeof v \<noteq> ''string'')
          then Inr None
          else enumValues isNumberEnum next_default
                 (values @ [\<lparr>value_name = member_name member, value_value = v,
                             value_tooltip = member_tooltip member\<rparr>])
                 rest)"

definition pushError :: "diagnostic \<Rightarrow> parse_state \<Rightarrow> parse_state" where
  "pushError e st = st\<lparr>extras := extras st @ [\<lparr>errors = [e], javascriptFunctionName = []\<rparr>]\<rparr>"

text \<open>
  buildSingleCustomEnum; \<open>topLevel\<close> says that the parent of the node is the source file.
\<close>

definition buildSingleCustomEnum :: "bool \<Rightarrow> EnumDeclaration \<Rightarrow> parse_state \<Rightarrow> js_error + parse_state" where
  "buildSingleCustomEnum topLevel enumDeclaration st =
     (if \<not> topLevel then Inr st
      else if \<not> isCustomEnum (enum_jsDocTags enumDeclaration) \<or> members enumDeclaration = [] then Inr st
      else
        (let id = enum_name enumDeclaration;
             st1 = st\<lparr>extras := extras st
                      @ [\<lparr>errors = validateName id ''enum'', javascriptFunctionName = []\<rparr>]\<rparr>;
             st2 = (if checkForDuplicate (metadataEnumIds st1) id
                    then pushError (CustomEnumDuplicateName id) st1 else st1);
             st3 = st2\<lparr>metadataEnumIds := metadataEnumIds st2 @ [id]\<rparr>;
             comment = getTagComment (enum_jsDocTags enumDeclaration) CUSTOM_ENUM;
             jsDocType = (if comment = [] then None else matchEnumType comment);
             st4 = (if comment \<noteq> [] \<and> jsDocType = None
                    then pushError (UnknownEnumType id) st3 else st3);
             firstInitializer = (case members enumDeclaration of
                                   [] \<Rightarrow> None
                                 | firstMember # _ \<Rightarrow> member_initializer firstMember);
             isNumberEnum = (case firstInitializer of
                               None \<Rightarrow> True
                             | Some initializerText \<Rightarrow> \<not> isNaN_Number initializerText)
         in if firstInitializer \<noteq> None \<and> jsDocType \<noteq> None
               \<and> ((isNumberEnum \<and> jsDocType \<noteq> Some ''number'')
                    \<or> (\<not> isNumberEnum \<and> jsDocType \<noteq> Some ''string''))
            then Inr (pushError (EnumTypeMismatch id) st4)
            else
              (case enumValues isNumberEnum 0 [] (members enumDeclaration) of
                 Inl e \<Rightarrow> Inl e
               | Inr None \<Rightarrow> Inr (pushError (EnumValueTypeInconsistent id) st4)
               | Inr (Some values) \<Rightarrow>
                   Inr (st4\<lparr>customEnums := customEnums st4
                              @ [\<lparr>enum_id = id,
                                  enum_type = (if isNumberEnum then ''number'' else ''string''),
                                  enum_values = values\<rparr>]\<rparr>))))"

fun buildCustomEnums :: "bool \<Rightarrow> node \<Rightarrow> parse_state \<Rightarrow> js_error + parse_state" where
  "buildCustomEnums topLevel (EnumDeclarationNode ed children) st =
     (case buildSingleCustomEnum topLevel ed st of
        Inl e \<Rightarrow> Inl e
      | Inr st1 \<Rightarrow> forEachChild (buildCustomEnums False) children st1)"
| "buildCustomEnums topLevel (FunctionDeclarationNode fd children) st =
     forEachChild (buildCustomEnums False) children st"
| "buildCustomEnums topLevel (OtherNode children) st =
     forEachChild (buildCustomEnums False) children st"

subsection \<open>Functions\<close>

definition noOptions :: "IFunctionOptions \<Rightarrow> bool" where
  "noOptions opts =
     (\<not> cancelable opts \<and> \<not> requiresAddress opts \<and> \<not> requiresStreamAddress opts
      \<and> \<not> stream opts \<and> \<not> volatile opts \<and> \<not> requiresParameterAddresses opts
      \<and> \<not> requiresStreamParameterAddresses opts \<and> \<not> excludeFromAutoComplete opts
      \<and> \<not> linkedEntityLoadService opts \<and> \<not> capturesCallingObject opts)"

definition deleteIfEmpty :: "string option \<Rightarrow> string option" where
  "deleteIfEmpty text = (if text = Some [] then None else text)"

text \<open>The declared name of the function, or the empty text when it has none.\<close>

definition declaredName :: "FunctionDeclaration \<Rightarrow> string" where
  "declaredName functionDeclaration =
     (case declaration_name functionDeclaration of None \<Rightarrow> [] | Some n \<Rightarrow> n)"

text \<open>\<^verbatim>\<open>const [lastParameter] = functionDeclaration.parameters.slice(-1)\<close>.\<close>

definition lastParameter :: "FunctionDeclaration \<Rightarrow> ParameterDeclaration option" where
  "lastParameter functionDeclaration =
     (if parameters functionDeclaration = [] then None
      else Some (last (parameters functionDeclaration)))"

text \<open>
  The id and the name of a custom function: the first and second word of the comment of
  the \<^verbatim>\<open>@customfunction\<close> tag, when they are there and not empty; else the upper-cased
  declared name for the id, and the id for the name.
\<close>

definition customFunctionId :: "FunctionDeclaration \<Rightarrow> string" where
  "customFunctionId functionDeclaration =
     (let idNameArray = split_space (getTagComment (jsDocTags functionDeclaration) CUSTOM_FUNCTION);
          idOverride = (case idNameArray of [] \<Rightarrow> [] | i # _ \<Rightarrow> i)
      in normalizeCustomFunctionId
           (if idOverride \<noteq> [] then idOverride else declaredName functionDeclaration))"

definition customFunctionName :: "FunctionDeclaration \<Rightarrow> string" where
  "customFunctionName functionDeclaration =
     (let idNameArray = split_space (getTagComment (jsDocTags functionDeclaration) CUSTOM_FUNCTION);
          nameOverride = (case idNameArray of _ # n # _ \<Rightarrow> n | _ \<Rightarrow> [])
      in if nameOverride \<noteq> [] then nameOverride else customFunctionId functionDeclaration)"

text \<open>
  The part of the body of buildFunctions that reads the declaration, \<^verbatim>\<open>basicEnums\<close>
  and \<^verbatim>\<open>customEnums\<close> only: the metadata of a custom function, with the diagnostics
  that getParameters, getResults, getOptions, validateId and validateName push, in that
  order. The \<^verbatim>\<open>result\<close> field holds an object, which is never falsy, so it is never
  deleted.
\<close>

definition customFunctionMetadata ::
  "FunctionDeclaration \<Rightarrow> string list \<Rightarrow> IEnum list \<Rightarrow> js_error + (IFunction \<times> diagnostic list)" where
  "customFunctionMetadata functionDeclaration basicEnumList customEnumList =
     (let tags = jsDocTags functionDeclaration;
          jsDocParamInfo = getJSDocParams (jsDocParameterTags functionDeclaration);
          jsDocParamTypeInfo = getJSDocParamsType (jsDocParameterTags functionDeclaration);
          jsDocParamOptionalInfo = getJSDocParamsOptionalType (jsDocParameterTags functionDeclaration);
          lastParam = lastParameter functionDeclaration;
          isStreamingFunction = hasStreamingInvocationParameter lastParam jsDocParamTypeInfo;
          isCancelableFunction = hasCancelableInvocationParameter lastParam jsDocParamTypeInfo;
          isInvocationFunction = hasInvocationParameter lastParam jsDocParamTypeInfo;
          parametersToParse =
            (if isStreamingFunction \<or> isCancelableFunction \<or> isInvocationFunction
             then butlast (parameters functionDeclaration)
             else parameters functionDeclaration);
          ps = getParameters basicEnumList customEnumList jsDocParamInfo jsDocParamOptionalInfo
                 parametersToParse
      in case getDescription (jsDoc functionDeclaration) of
           Inl e \<Rightarrow> Inl e
         | Inr description \<Rightarrow>
            (case getResults functionDeclaration isStreamingFunction lastParam jsDocParamTypeInfo
                    basicEnumList customEnumList of
               Inl e \<Rightarrow> Inl e
             | Inr res \<Rightarrow>
                (let helpUrl = normalizeLineEndings (Some (getTagComment tags HELPURL_PARAM));
                     opts = getOptions functionDeclaration isStreamingFunction isCancelableFunction
                              isInvocationFunction;
                     id = customFunctionId functionDeclaration;
                     name = customFunctionName functionDeclaration
                 in Inr (\<lparr>function_id = id,
                          function_name = name,
                          function_description = deleteIfEmpty description,
                          function_helpUrl = deleteIfEmpty helpUrl,
                          function_parameters = fst ps,
                          function_result = Some (fst res),
                          function_options = (if noOptions (fst opts) then None else Some (fst opts))\<rparr>,
                         snd ps @ snd res @ snd opts @ validateId id
                         @ validateName name ''function''))))"

text \<open>
  The body of buildFunctions for a function declaration whose parent is the source file.
  \<^verbatim>\<open>functionErrors\<close> and \<^verbatim>\<open>extra.errors\<close> are one array in the source, so the
  diagnostics come in the order of the pushes.
\<close>

definition buildFunctionDeclaration ::
  "string \<Rightarrow> FunctionDeclaration \<Rightarrow> parse_state \<Rightarrow> js_error + parse_state" where
  "buildFunctionDeclaration fileName functionDeclaration st =
     (let funcName = declaredName functionDeclaration;
          functionErrors = (if checkForDuplicate (functionNames st) funcName
                            then [DuplicateFunctionName funcName] else []);
          st1 = st\<lparr>functionNames := functionNames st @ [funcName]\<rparr>
      in if isCustomFunction (jsDocTags functionDeclaration) then
           (case customFunctionMetadata functionDeclaration (basicEnums st1) (customEnums st1) of
              Inl e \<Rightarrow> Inl e
            | Inr metadata \<Rightarrow>
                (let functionMetadata = fst metadata;
                     name = function_name functionMetadata;
                     id = function_id functionMetadata;
                     errs = functionErrors @ snd metadata
                            @ (if checkForDuplicate (metadataFunctionNames st1) name
                               then [CustomFunctionDuplicateName name] else [])
                            @ (if checkForDuplicate (metadataFunctionIds st1) id
                               then [CustomFunctionDuplicateId id] else [])
                 in Inr (st1\<lparr>metadataFunctionNames := metadataFunctionNames st1 @ [name],
                              metadataFunctionIds := metadataFunctionIds st1 @ [id],
                              associate := associate st1
                                @ [\<lparr>sourceFileName = fileName, functionName = funcName,
                                    associate_id = id\<rparr>],
                              extras := extras st1
                                @ [\<lparr>errors = errs, javascriptFunctionName = funcName\<rparr>],
                              functionItems := functionItems st1 @ [functionMetadata]\<rparr>)))
         else Inr st1)"

fun buildFunctions :: "string \<Rightarrow> bool \<Rightarrow> node \<Rightarrow> parse_state \<Rightarrow> js_error + parse_state" where
  "buildFunctions fileName topLevel (FunctionDeclarationNode fd children) st =
     (case (if topLevel then buildFunctionDeclaration fileName fd st else Inr st) of
        Inl e \<Rightarrow> Inl e
      | Inr st1 \<Rightarrow> forEachChild (buildFunctions fileName False) children st1)"
| "buildFunctions fileName topLevel (EnumDeclarationNode ed children) st =
     forEachChild (buildFunctions fileName False) children st"
| "buildFunctions fileName topLevel (OtherNode children) st =
     forEachChild (buildFunctions fileName False) children st"

subsection \<open>parseTree\<close>

text \<open>
  parseTree on the children of the source file node, in source order: the three walks
  one after the other, then the result. \<open>Inl\<close> is an exception that leaves the call.
\<close>

definition parseTree :: "node list \<Rightarrow> string \<Rightarrow> js_error + IParseTreeResult" where
  "parseTree sourceFile fileName =
     (let st0 = initial_state\<lparr>basicEnums := fold buildEnums sourceFile []\<rparr>
      in case forEachChild (buildCustomEnums True) sourceFile st0 of
           Inl e \<Rightarrow> Inl e
         | Inr st1 \<Rightarrow>
             (case forEachChild (buildFunctions fileName True) sourceFile st1 of
                Inl e \<Rightarrow> Inl e
              | Inr st2 \<Rightarrow>
                  Inr \<lparr>result_associate = associate st2,
                       result_extras = extras st2,
                       result_functions = functionItems st2,
                       result_enums = customEnums st2\<rparr>))"

subsection \<open>Notions used to state the properties\<close>

text \<open>
  The uniqueness diagnostics of the specification: the duplicate function name, the
  duplicate name and the duplicate id of the \<^verbatim>\<open>@customfunction\<close> tag, and the duplicate
  enum name.
\<close>

fun isUniquenessDiagnostic :: "diagnostic \<Rightarrow> bool" where
  "isUniquenessDiagnostic (DuplicateFunctionName n) = True"
| "isUniquenessDiagnostic (CustomFunctionDuplicateName n) = True"
| "isUniquenessDiagnostic (CustomFunctionDuplicateId n) = True"
| "isUniquenessDiagnostic (CustomEnumDuplicateName n) = True"
| "isUniquenessDiagnostic d = False"


text \<open>
  The value of the constant \<^verbatim>\<open>parametersToParse\<close> of buildFunctions, the parameters
  that go to getParameters: all parameters, or all but the last one when the last one is
  a streaming, cancelable or invocation parameter.
\<close>

definition parametersToParse :: "FunctionDeclaration \<Rightarrow> ParameterDeclaration list" where
  "parametersToParse functionDeclaration =
     (let jsDocParamTypeInfo = getJSDocParamsType (jsDocParameterTags functionDeclaration);
          lastParam = lastParameter functionDeclaration
      in if hasStreamingInvocationParameter lastParam jsDocParamTypeInfo
            \<or> hasCancelableInvocationParameter lastParam jsDocParamTypeInfo
            \<or> hasInvocationParameter lastParam jsDocParamTypeInfo
         then butlast (parameters functionDeclaration)
         else parameters functionDeclaration)"


subsection \<open>Example declarations\<close>

text \<open>The trees of a few small source files, as inputs of the properties below.\<close>

definition customFunctionTag :: JSDocTag where
  "customFunctionTag = \<lparr>tagName = ''customfunction'', tag_comment = None\<rparr>"

definition customEnumTag :: JSDocTag where
  "customEnumTag = \<lparr>tagName = ''customenum'', tag_comment = None\<rparr>"

definition plainParameter :: "string \<Rightarrow> type_node \<Rightarrow> ParameterDeclaration" where
  "plainParameter name t =
     \<lparr>parameter_name = Some name, parameter_type = Some t, questionToken = False,
      initializer = False, dotDotDotToken = False, parameter_jsDocType = None\<rparr>"

text \<open>
  \<^verbatim>\<open>/** @customfunction */ function isPaid(): Excel.BooleanCellValue { ... }\<close>
\<close>

definition isPaid_function :: FunctionDeclaration where
  "isPaid_function =
     \<lparr>declaration_name = Some ''isPaid'', parameters = [],
      return_type = Some (TypeReferenceNode ''Excel.BooleanCellValue'' None),
      jsDoc = Some [None], jsDocTags = [customFunctionTag], jsDocParameterTags = [],
      jsDocReturnType = None\<rparr>"

text \<open>
  \<^verbatim>\<open>/** @customenum */ enum Color { Red = 'red' }\<close>, the initializer in single quotes.
\<close>

definition color_enum :: EnumDeclaration where
  "color_enum =
     \<lparr>enum_name = ''Color'',
      members = [\<lparr>member_name = ''Red'',
                  member_initializer = Some [CHR 0x27, CHR ''r'', CHR ''e'', CHR ''d'', CHR 0x27],
                  member_tooltip = []\<rparr>],
      enum_jsDocTags = [customEnumTag]\<rparr>"


text \<open>\<^verbatim>\<open>/** @customenum */ enum Nothing { }\<close>\<close>

definition nothing_enum :: EnumDeclaration where
  "nothing_enum = \<lparr>enum_name = ''Nothing'', members = [], enum_jsDocTags = [customEnumTag]\<rparr>"

text \<open>\<^verbatim>\<open>/** @customenum {number} */ enum Rank { Low, Mid = 7, High }\<close>\<close>

definition rank_enum :: EnumDeclaration where
  "rank_enum =
     \<lparr>enum_name = ''Rank'',
      members = [\<lparr>member_name = ''Low'', member_initializer = None, member_tooltip = []\<rparr>,
                 \<lparr>member_name = ''Mid'', member_initializer = Some ''7'', member_tooltip = []\<rparr>,
                 \<lparr>member_name = ''High'', member_initializer = None, member_tooltip = []\<rparr>],
      enum_jsDocTags = [\<lparr>tagName = ''customenum'', tag_comment = Some ''{number}''\<rparr>]\<rparr>"

text \<open>\<^verbatim>\<open>/** @customenum */ enum Direction { Up, Down, Left }\<close>\<close>

definition direction_enum :: EnumDeclaration where
  "direction_enum =
     \<lparr>enum_name = ''Direction'',
      members = [\<lparr>member_name = ''Up'', member_initializer = None, member_tooltip = []\<rparr>,
                 \<lparr>member_name = ''Down'', member_initializer = None, member_tooltip = []\<rparr>,
                 \<lparr>member_name = ''Left'', member_initializer = None, member_tooltip = []\<rparr>],
      enum_jsDocTags = [customEnumTag]\<rparr>"




text \<open>
  \<^verbatim>\<open>/** @customfunction */ function add() { ... }\<close> and
  \<^verbatim>\<open>/** @customfunction */ function ADD() { ... }\<close>
\<close>

definition add_function :: FunctionDeclaration where
  "add_function =
     \<lparr>declaration_name = Some ''add'', parameters = [], return_type = None,
      jsDoc = Some [None], jsDocTags = [customFunctionTag], jsDocParameterTags = [],
      jsDocReturnType = None\<rparr>"

definition ADD_function :: FunctionDeclaration where
  "ADD_function =
     \<lparr>declaration_name = Some ''ADD'', parameters = [], return_type = None,
      jsDoc = Some [None], jsDocTags = [customFunctionTag], jsDocParameterTags = [],
      jsDocReturnType = None\<rparr>"

text \<open>\<^verbatim>\<open>function add() { ... }\<close>, with no doc comment.\<close>

definition plain_add_function :: FunctionDeclaration where
  "plain_add_function =
     \<lparr>declaration_name = Some ''add'', parameters = [], return_type = None,
      jsDoc = None, jsDocTags = [], jsDocParameterTags = [], jsDocReturnType = None\<rparr>"

text \<open>
  \<^verbatim>\<open>/** @customfunction */ function total(table: Array<number[]>): number { ... }\<close>
\<close>

definition total_function :: FunctionDeclaration where
  "total_function =
     \<lparr>declaration_name = Some ''total'',
      parameters = [plainParameter ''table''
                      (TypeReferenceNode ''Array'' (Some [ArrayTypeNode (OtherTypeNode NumberKeyword)]))],
      return_type = Some (OtherTypeNode NumberKeyword),
      jsDoc = Some [None], jsDocTags = [customFunctionTag], jsDocParameterTags = [],
      jsDocReturnType = None\<rparr>"




section \<open>Properties\<close>

subsection \<open>Walking the tree\<close>

lemma fold_Inl:
  "fold (\<lambda>n r. case r of Inl e \<Rightarrow> Inl e | Inr s \<Rightarrow> cb n s) ns (Inl e) = Inl e"
  by (induction ns) auto

lemma forEachChild_Cons:
  "forEachChild cb (n # ns) st = (case cb n st of Inl e \<Rightarrow> Inl e | Inr s \<Rightarrow> forEachChild cb ns s)"
  by (simp add: fold_Inl split: sum.splits)

lemma forEachChild_append:
  "forEachChild cb (xs @ ys) st =
     (case forEachChild cb xs st of Inl e \<Rightarrow> Inl e | Inr s \<Rightarrow> forEachChild cb ys s)"
  by (simp add: fold_Inl split: sum.splits)

lemma forEachChild_id:
  "(\<And>n s. n \<in> set ns \<Longrightarrow> cb n s = Inr s) \<Longrightarrow> forEachChild cb ns st = Inr st"
  by (induction ns arbitrary: st) auto

lemma forEachChild_skip:
  assumes "\<And>s. cb x s = Inr s"
  shows "forEachChild cb (before @ x # after) st = forEachChild cb (before @ after) st"
proof -
  have "(case r of Inl e \<Rightarrow> Inl e | Inr s \<Rightarrow> cb x s) = r" for r
    using assms by (cases r) auto
  then show ?thesis by simp
qed

text \<open>A declaration that is not a child of the source file changes nothing.\<close>

lemma buildFunctions_nested: "buildFunctions f False n st = Inr st"
  by (induction n arbitrary: st) (simp_all add: forEachChild_id)

lemma buildCustomEnums_nested: "buildCustomEnums False n st = Inr st"
  by (induction n arbitrary: st) (simp_all add: forEachChild_id buildSingleCustomEnum_def)

subsection \<open>What one custom function adds to the state\<close>

lemma buildFunctionDeclaration_custom:
  assumes "isCustomFunction (jsDocTags fd)" and "buildFunctionDeclaration file fd st = Inr st'"
  shows "\<exists>item errs.
          customFunctionMetadata fd (basicEnums st) (customEnums st) = Inr (item, errs) \<and>
          st' = st\<lparr>functionNames := functionNames st @ [declaredName fd],
            metadataFunctionNames := metadataFunctionNames st @ [function_name item],
            metadataFunctionIds := metadataFunctionIds st @ [function_id item],
            associate := associate st
              @ [\<lparr>sourceFileName = file, functionName = declaredName fd,
                  associate_id = function_id item\<rparr>],
            extras := extras st @ [\<lparr>errors =
                (if checkForDuplicate (functionNames st) (declaredName fd)
                 then [DuplicateFunctionName (declaredName fd)] else [])
                @ errs
                @ (if checkForDuplicate (metadataFunctionNames st) (function_name item)
                   then [CustomFunctionDuplicateName (function_name item)] else [])
                @ (if checkForDuplicate (metadataFunctionIds st) (function_id item)
                   then [CustomFunctionDuplicateId (function_id item)] else []),
                javascriptFunctionName = declaredName fd\<rparr>],
            functionItems := functionItems st @ [item]\<rparr>"
proof (cases "customFunctionMetadata fd (basicEnums st) (customEnums st)")
  case (Inl e)
  with assms show ?thesis by (simp add: buildFunctionDeclaration_def Let_def)
next
  case (Inr m)
  obtain item errs where m: "m = (item, errs)" by (cases m)
  from assms Inr m show ?thesis
    by (simp add: buildFunctionDeclaration_def Let_def)
qed



subsection \<open>Cell-value result types\<close>

text \<open>
  C2. The claim: a result type that resolves through a cell-value reference type is
  downgraded to \<^verbatim>\<open>any\<close>, so that the \<^verbatim>\<open>type\<close> field of the result is omitted. The
  source says so in a comment, but its test compares the resolved basic type with the
  values of \<^verbatim>\<open>CELLVALUETYPE_MAPPINGS\<close>, which are names such as
  \<^verbatim>\<open>booleancellvalue\<close>. For a function that returns \<^verbatim>\<open>Excel.BooleanCellValue\<close> the
  emitted result keeps the type \<^verbatim>\<open>boolean\<close>.
\<close>

theorem cell_value_result_not_downgraded:
  "parseTree [FunctionDeclarationNode isPaid_function []] ''functions.ts'' =
     Inr \<lparr>result_associate =
            [\<lparr>sourceFileName = ''functions.ts'', functionName = ''isPaid'',
              associate_id = ''ISPAID''\<rparr>],
          result_extras = [\<lparr>errors = [], javascriptFunctionName = ''isPaid''\<rparr>],
          result_functions =
            [\<lparr>function_id = ''ISPAID'', function_name = ''ISPAID'', function_description = None,
              function_helpUrl = None, function_parameters = [],
              function_result = Some \<lparr>result_type = Some ''boolean'', result_dimensionality = None\<rparr>,
              function_options = None\<rparr>],
          result_enums = []\<rparr>"
  by code_simp

subsection \<open>Exceptions\<close>

text \<open>
  C3. The claim: \<^verbatim>\<open>parseTree\<close> returns a result for every source file and no error
  condition leaves it as an exception. The text of an enum member's initializer goes to
  \<^verbatim>\<open>JSON.parse\<close> as it is written, and an initializer in single quotes is not JSON:
  for the enum \<open>color_enum\<close> the call ends in a SyntaxError.
\<close>

theorem single_quoted_initializer_throws:
  "parseTree [EnumDeclarationNode color_enum []] ''functions.ts'' = Inl SyntaxError"
  by code_simp

subsection \<open>Array parameters\<close>

text \<open>
  C6. The claim: a parameter whose type has array nesting depth 2 gets the dimensionality
  \<^verbatim>\<open>matrix\<close> and no \<^verbatim>\<open>repeating\<close> field; \<^verbatim>\<open>repeating\<close> is \<^verbatim>\<open>true\<close> exactly at
  depth 1 or 3. The source counts the levels of one notation only: the loop over
  \<^verbatim>\<open>Array<T>\<close> levels stops at a \<^verbatim>\<open>T[]\<close> level and the loop over \<^verbatim>\<open>T[]\<close> levels stops
  at an \<^verbatim>\<open>Array<T>\<close> level. So for every element type \<open>e\<close> a parameter of type
  \<^verbatim>\<open>Array<e[]>\<close> or \<^verbatim>\<open>Array<e>[]\<close>, an array of arrays, is emitted with the dimensionality
  absent (scalar) and \<^verbatim>\<open>repeating\<close> set, where \<^verbatim>\<open>number[][]\<close> and
  \<^verbatim>\<open>Array<Array<number>>\<close> are emitted as \<^verbatim>\<open>matrix\<close> without \<^verbatim>\<open>repeating\<close>. For
  \<^verbatim>\<open>Array<e[]>\<close> the resolved type is undefined and the diagnostic "Type doesn't match
  mappings" is pushed, although the comments of getParamType take the array to be
  unwrapped at that point. The last conjunct is the whole output for \<open>total_function\<close>.
\<close>

theorem mixed_array_notation_parameter:
  "param_dimensionality (fst (getParameter basicEnumList customEnumList info optionalInfo
       (plainParameter name (TypeReferenceNode ''Array'' (Some [ArrayTypeNode e]))))) = None
   \<and> param_repeating (fst (getParameter basicEnumList customEnumList info optionalInfo
       (plainParameter name (TypeReferenceNode ''Array'' (Some [ArrayTypeNode e]))))) = Some True
   \<and> param_type (fst (getParameter basicEnumList customEnumList info optionalInfo
       (plainParameter name (TypeReferenceNode ''Array'' (Some [ArrayTypeNode e]))))) = None
   \<and> snd (getParameter basicEnumList customEnumList info optionalInfo
       (plainParameter name (TypeReferenceNode ''Array'' (Some [ArrayTypeNode e])))) =
         [TypeDoesNotMatchMappings]
   \<and> param_dimensionality (fst (getParameter basicEnumList customEnumList info optionalInfo
       (plainParameter name (ArrayTypeNode (TypeReferenceNode ''Array'' (Some [e])))))) = None
   \<and> param_repeating (fst (getParameter basicEnumList customEnumList info optionalInfo
       (plainParameter name (ArrayTypeNode (TypeReferenceNode ''Array'' (Some [e])))))) = Some True
   \<and> param_dimensionality (fst (getParameter basicEnumList customEnumList info optionalInfo
       (plainParameter name (ArrayTypeNode (ArrayTypeNode (OtherTypeNode NumberKeyword)))))) =
         Some ''matrix''
   \<and> param_repeating (fst (getParameter basicEnumList customEnumList info optionalInfo
       (plainParameter name (ArrayTypeNode (ArrayTypeNode (OtherTypeNode NumberKeyword)))))) = None
   \<and> param_dimensionality (fst (getParameter basicEnumList customEnumList info optionalInfo
       (plainParameter name
          (TypeReferenceNode ''Array''
             (Some [TypeReferenceNode ''Array'' (Some [OtherTypeNode NumberKeyword])]))))) =
         Some ''matrix''
   \<and> param_repeating (fst (getParameter basicEnumList customEnumList info optionalInfo
       (plainParameter name
          (TypeReferenceNode ''Array''
             (Some [TypeReferenceNode ''Array'' (Some [OtherTypeNode NumberKeyword])]))))) = None
   \<and> parseTree [FunctionDeclarationNode total_function []] ''functions.ts'' =
       Inr \<lparr>result_associate =
              [\<lparr>sourceFileName = ''functions.ts'', functionName = ''total'',
                associate_id = ''TOTAL''\<rparr>],
            result_extras =
              [\<lparr>errors = [TypeDoesNotMatchMappings], javascriptFunctionName = ''total''\<rparr>],
            result_functions =
              [\<lparr>function_id = ''TOTAL'', function_name = ''TOTAL'', function_description = None,
                function_helpUrl = None,
                function_parameters =
                  [\<lparr>param_name = Some ''table'', param_description = None,
                    param_type = None, param_cellValueType = None,
                    param_dimensionality = None, param_optional = None,
                    param_repeating = Some True, param_customEnumType = None\<rparr>],
                function_result = Some \<lparr>result_type = Some ''number'', result_dimensionality = None\<rparr>,
                function_options = None\<rparr>],
            result_enums = []\<rparr>"
proof -
  have mixed: "getArrayDimensionalityAndType (TypeReferenceNode ''Array'' (Some [ArrayTypeNode e])) =
                 \<lparr>array_dimensionality = 1, array_node = ArrayTypeNode e\<rparr>"
    "array_dimensionality
       (getArrayDimensionalityAndType (ArrayTypeNode (TypeReferenceNode ''Array'' (Some [e])))) = 1"
    by simp_all
  have uniform: "array_dimensionality
       (getArrayDimensionalityAndType (ArrayTypeNode (ArrayTypeNode (OtherTypeNode NumberKeyword)))) = 2"
    "array_dimensionality
       (getArrayDimensionalityAndType
          (TypeReferenceNode ''Array''
             (Some [TypeReferenceNode ''Array'' (Some [OtherTypeNode NumberKeyword])]))) = 2"
    by simp_all
  have general:
    "param_dimensionality (fst (getParameter basicEnumList customEnumList info optionalInfo
       (plainParameter name (TypeReferenceNode ''Array'' (Some [ArrayTypeNode e]))))) = None
   \<and> param_repeating (fst (getParameter basicEnumList customEnumList info optionalInfo
       (plainParameter name (TypeReferenceNode ''Array'' (Some [ArrayTypeNode e]))))) = Some True
   \<and> param_type (fst (getParameter basicEnumList customEnumList info optionalInfo
       (plainParameter name (TypeReferenceNode ''Array'' (Some [ArrayTypeNode e]))))) = None
   \<and> snd (getParameter basicEnumList customEnumList info optionalInfo
       (plainParameter name (TypeReferenceNode ''Array'' (Some [ArrayTypeNode e])))) =
         [TypeDoesNotMatchMappings]
   \<and> param_dimensionality (fst (getParameter basicEnumList customEnumList info optionalInfo
       (plainParameter name (ArrayTypeNode (TypeReferenceNode ''Array'' (Some [e])))))) = None
   \<and> param_repeating (fst (getParameter basicEnumList customEnumList info optionalInfo
       (plainParameter name (ArrayTypeNode (TypeReferenceNode ''Array'' (Some [e])))))) = Some True
   \<and> param_dimensionality (fst (getParameter basicEnumList customEnumList info optionalInfo
       (plainParameter name (ArrayTypeNode (ArrayTypeNode (OtherTypeNode NumberKeyword)))))) =
         Some ''matrix''
   \<and> param_repeating (fst (getParameter basicEnumList customEnumList info optionalInfo
       (plainParameter name (ArrayTypeNode (ArrayTypeNode (OtherTypeNode NumberKeyword)))))) = None
   \<and> param_dimensionality (fst (getParameter basicEnumList customEnumList info optionalInfo
       (plainParameter name
          (TypeReferenceNode ''Array''
             (Some [TypeReferenceNode ''Array'' (Some [OtherTypeNode NumberKeyword])]))))) =
         Some ''matrix''
   \<and> param_repeating (fst (getParameter basicEnumList customEnumList info optionalInfo
       (plainParameter name
          (TypeReferenceNode ''Array''
             (Some [TypeReferenceNode ''Array'' (Some [OtherTypeNode NumberKeyword])]))))) = None"
    unfolding getParameter_def plainParameter_def getParamDim_def isRepeatingParameter_def
      getParamType_def Let_def
    by (simp add: mixed uniform TYPE_MAPPINGS_def
          del: getArrayDimensionalityAndType.simps)
  have total: "parseTree [FunctionDeclarationNode total_function []] ''functions.ts'' =
       Inr \<lparr>result_associate =
              [\<lparr>sourceFileName = ''functions.ts'', functionName = ''total'',
                associate_id = ''TOTAL''\<rparr>],
            result_extras =
              [\<lparr>errors = [TypeDoesNotMatchMappings], javascriptFunctionName = ''total''\<rparr>],
            result_functions =
              [\<lparr>function_id = ''TOTAL'', function_name = ''TOTAL'', function_description = None,
                function_helpUrl = None,
                function_parameters =
                  [\<lparr>param_name = Some ''table'', param_description = None,
                    param_type = None, param_cellValueType = None,
                    param_dimensionality = None, param_optional = None,
                    param_repeating = Some True, param_customEnumType = None\<rparr>],
                function_result = Some \<lparr>result_type = Some ''number'', result_dimensionality = None\<rparr>,
                function_options = None\<rparr>],
            result_enums = []\<rparr>"
    by code_simp
  from general total show ?thesis by simp
qed

subsection \<open>Enums without members\<close>

text \<open>
  C10. A custom-tagged enum declaration with no members is skipped: buildSingleCustomEnum
  leaves the whole state as it was (no enum record, no diagnostic, no entry in the list
  of enum ids), buildEnums does not list it either, and the result of \<^verbatim>\<open>parseTree\<close> is
  the same as for the file without the declaration.
\<close>

theorem empty_custom_enum_skipped:
  assumes "isCustomEnum (enum_jsDocTags ed)" and "members ed = []"
  shows "buildSingleCustomEnum topLevel ed st = Inr st
       \<and> buildEnums (EnumDeclarationNode ed []) names = names
       \<and> parseTree (before @ [EnumDeclarationNode ed []] @ after) file
           = parseTree (before @ after) file"
proof -
  have single: "buildSingleCustomEnum t ed s = Inr s" for t s
    using assms(2) by (simp add: buildSingleCustomEnum_def)
  have enums: "buildEnums (EnumDeclarationNode ed []) ns = ns" for ns
    using assms(1) by simp
  have custom: "buildCustomEnums True (EnumDeclarationNode ed []) s = Inr s" for s
    by (simp add: single)
  have funs: "buildFunctions file True (EnumDeclarationNode ed []) s = Inr s" for s
    by simp
  have "parseTree (before @ EnumDeclarationNode ed [] # after) file = parseTree (before @ after) file"
    unfolding parseTree_def forEachChild_skip[of "buildCustomEnums True", OF custom]
      forEachChild_skip[of "buildFunctions file True", OF funs]
    using assms(1) by simp
  with single enums show ?thesis by simp
qed

text \<open>C10 at the enum \<open>nothing_enum\<close>, declared before the function \<open>isPaid_function\<close>.\<close>

theorem empty_custom_enum_skipped_witness:
  "buildSingleCustomEnum True nothing_enum initial_state = Inr initial_state
   \<and> buildEnums (EnumDeclarationNode nothing_enum []) [] = []
   \<and> parseTree ([] @ [EnumDeclarationNode nothing_enum []] @ [FunctionDeclarationNode isPaid_function []])
        ''functions.ts''
       = parseTree ([] @ [FunctionDeclarationNode isPaid_function []]) ''functions.ts''"
proof -
  have c: "isCustomEnum (enum_jsDocTags nothing_enum)" by code_simp
  have m: "members nothing_enum = []" by (simp add: nothing_enum_def)
  show ?thesis by (rule empty_custom_enum_skipped[OF c m])
qed

subsection \<open>Default values of enum members\<close>

lemma enumValues_Some:
  "enumValues isNum d vs ms = Inr (Some out) \<Longrightarrow>
   \<exists>new. out = vs @ new \<and> length new = length ms
     \<and> (\<forall>i<length ms. member_initializer (ms ! i) = None \<longrightarrow>
           value_value (new ! i) =
             JSNumber (d + length (filter (\<lambda>m. member_initializer m = None) (take i ms))))"
proof (induction ms arbitrary: d vs)
  case Nil
  then show ?case by simp
next
  case (Cons m ms)
  obtain v d' where step:
      "enumValues isNum d'
         (vs @ [\<lparr>value_name = member_name m, value_value = v, value_tooltip = member_tooltip m\<rparr>])
         ms = Inr (Some out)"
    and v: "member_initializer m = None \<Longrightarrow> v = JSNumber d"
    and d': "d' = d + length (filter (\<lambda>m. member_initializer m = None) [m])"
    using Cons.prems by (cases "member_initializer m") (auto split: option.splits if_splits)
  let ?v = "\<lparr>value_name = member_name m, value_value = v, value_tooltip = member_tooltip m\<rparr>"
  from Cons.IH[OF step] obtain new where new: "out = (vs @ [?v]) @ new" "length new = length ms"
      "\<forall>i<length ms. member_initializer (ms ! i) = None \<longrightarrow>
           value_value (new ! i) =
             JSNumber (d' + length (filter (\<lambda>m. member_initializer m = None) (take i ms)))"
    by blast
  have "\<forall>i<length (m # ms). member_initializer ((m # ms) ! i) = None \<longrightarrow>
           value_value ((?v # new) ! i) =
             JSNumber (d + length (filter (\<lambda>m. member_initializer m = None) (take i (m # ms))))"
  proof (intro allI impI)
    fix i assume i: "i < length (m # ms)" and u: "member_initializer ((m # ms) ! i) = None"
    show "value_value ((?v # new) ! i) =
             JSNumber (d + length (filter (\<lambda>m. member_initializer m = None) (take i (m # ms))))"
    proof (cases i)
      case 0
      with u v show ?thesis by simp
    next
      case (Suc j)
      with i u new(3) d' show ?thesis by simp
    qed
  qed
  with new(1,2) show ?case by (intro exI[of _ "?v # new"]) simp
qed

lemma enumValues_all_unvalued:
  "\<forall>m\<in>set ms. member_initializer m = None \<Longrightarrow>
   \<exists>new. enumValues True d vs ms = Inr (Some (vs @ new))
     \<and> map value_value new = map JSNumber [d..<d + length ms]"
proof (induction ms arbitrary: d vs)
  case Nil
  then show ?case by simp
next
  case (Cons m ms)
  let ?v = "\<lparr>value_name = member_name m, value_value = JSNumber d, value_tooltip = member_tooltip m\<rparr>"
  from Cons.prems have "\<forall>m\<in>set ms. member_initializer m = None" by simp
  from Cons.IH[OF this, of "d + 1" "vs @ [?v]"] obtain new
    where run: "enumValues True (d + 1) (vs @ [?v]) ms = Inr (Some ((vs @ [?v]) @ new))"
      and vals: "map value_value new = map JSNumber [d + 1..<d + 1 + length ms]" by blast
  have upt: "[d..<d + length (m # ms)] = d # [d + 1..<d + 1 + length ms]"
    by (simp add: upt_rec[of d] del: upt_Suc)
  have "map value_value (?v # new) = map JSNumber [d..<d + length (m # ms)]"
    unfolding upt using vals by simp
  moreover have "enumValues True d vs (m # ms) = Inr (Some (vs @ ?v # new))"
    using Cons.prems run by simp
  ultimately show ?case by blast
qed

lemma customEnums_pushError: "customEnums (pushError e st) = customEnums st"
  by (simp add: pushError_def)

lemma buildSingleCustomEnum_record:
  assumes "buildSingleCustomEnum True ed st = Inr st'" and "customEnums st' = customEnums st @ [e]"
  shows "enumValues True 0 [] (members ed) = Inr (Some (enum_values e))
       \<or> enumValues False 0 [] (members ed) = Inr (Some (enum_values e))"
  using assms
  by (auto simp add: buildSingleCustomEnum_def Let_def customEnums_pushError
           split: if_splits sum.splits option.splits)

text \<open>
  C7. In every enum record that is emitted, a member without an initializer has the
  number of members without an initializer that come before it as its value: the
  defaults count 0, 1, 2, ... over those members only, whatever values the other members
  have. In particular a custom enum in which no member has an initializer is emitted as
  a number enum whose Nth member has the value N.
\<close>

theorem enum_default_values:
  "(buildSingleCustomEnum True ed st = Inr st' \<and> customEnums st' = customEnums st @ [e]
      \<longrightarrow> length (enum_values e) = length (members ed)
          \<and> (\<forall>i<length (members ed). member_initializer (members ed ! i) = None \<longrightarrow>
                value_value (enum_values e ! i) =
                  JSNumber (length (filter (\<lambda>m. member_initializer m = None) (take i (members ed))))))
   \<and> (isCustomEnum (enum_jsDocTags ed) \<and> members ed \<noteq> []
        \<and> (\<forall>m\<in>set (members ed). member_initializer m = None)
      \<longrightarrow> (\<exists>st2 e2. buildSingleCustomEnum True ed st = Inr st2
             \<and> customEnums st2 = customEnums st @ [e2]
             \<and> enum_type e2 = ''number''
             \<and> map value_value (enum_values e2) = map JSNumber [0..<length (members ed)]))"
proof (intro conjI impI)
  assume a: "buildSingleCustomEnum True ed st = Inr st' \<and> customEnums st' = customEnums st @ [e]"
  then obtain isNum where "enumValues isNum 0 [] (members ed) = Inr (Some (enum_values e))"
    using buildSingleCustomEnum_record[of ed st st' e] by blast
  from enumValues_Some[OF this]
  show "length (enum_values e) = length (members ed)"
    and "\<forall>i<length (members ed). member_initializer (members ed ! i) = None \<longrightarrow>
                value_value (enum_values e ! i) =
                  JSNumber (length (filter (\<lambda>m. member_initializer m = None) (take i (members ed))))"
    by auto
next
  assume a: "isCustomEnum (enum_jsDocTags ed) \<and> members ed \<noteq> []
        \<and> (\<forall>m\<in>set (members ed). member_initializer m = None)"
  then obtain m ms where ms: "members ed = m # ms" by (cases "members ed") auto
  with a have first: "member_initializer m = None" by simp
  from a enumValues_all_unvalued[of "members ed" 0 "[]"] obtain new
    where new: "enumValues True 0 [] (members ed) = Inr (Some new)"
      "map value_value new = map JSNumber [0..<length (members ed)]" by auto
  show "\<exists>st2 e2. buildSingleCustomEnum True ed st = Inr st2
             \<and> customEnums st2 = customEnums st @ [e2]
             \<and> enum_type e2 = ''number''
             \<and> map value_value (enum_values e2) = map JSNumber [0..<length (members ed)]"
    using a first new
    by (simp add: buildSingleCustomEnum_def Let_def ms customEnums_pushError pushError_def)
qed

text \<open>
  C7 at \<open>rank_enum\<close>, whose third member gets the value 1 (the second has the
  initializer 7), and at \<open>direction_enum\<close>, whose members get 0, 1 and 2.
\<close>

theorem enum_default_values_witness:
  "(case buildSingleCustomEnum True rank_enum initial_state of
      Inl e \<Rightarrow> False
    | Inr st' \<Rightarrow> value_value (enum_values (last (customEnums st')) ! 2) = JSNumber 1)
   \<and> (\<exists>st2 e2. buildSingleCustomEnum True direction_enum initial_state = Inr st2
         \<and> customEnums st2 = customEnums initial_state @ [e2]
         \<and> enum_type e2 = ''number''
         \<and> map value_value (enum_values e2) = map JSNumber [0..<length (members direction_enum)])"
proof -
  have "case buildSingleCustomEnum True rank_enum initial_state of
          Inl e \<Rightarrow> False
        | Inr st' \<Rightarrow> customEnums st' = customEnums initial_state @ [last (customEnums st')]"
    by code_simp
  then obtain st' where b: "buildSingleCustomEnum True rank_enum initial_state = Inr st'"
    and l: "customEnums st' = customEnums initial_state @ [last (customEnums st')]"
    by (auto split: sum.splits)
  have i: "(2::nat) < length (members rank_enum)" by (simp add: rank_enum_def)
  have u: "member_initializer (members rank_enum ! 2) = None" by (simp add: rank_enum_def)
  have n: "length (filter (\<lambda>m. member_initializer m = None) (take 2 (members rank_enum))) = 1"
    by (simp add: rank_enum_def)
  from enum_default_values[of rank_enum initial_state st' "last (customEnums st')"] b l i u
  have "value_value (enum_values (last (customEnums st')) ! 2) =
          JSNumber (length (filter (\<lambda>m. member_initializer m = None) (take 2 (members rank_enum))))"
    by blast
  with n b have first: "case buildSingleCustomEnum True rank_enum initial_state of
      Inl e \<Rightarrow> False
    | Inr st' \<Rightarrow> value_value (enum_values (last (customEnums st')) ! 2) = JSNumber 1"
    by simp
  have c: "isCustomEnum (enum_jsDocTags direction_enum)" by code_simp
  have m: "members direction_enum \<noteq> []" by (simp add: direction_enum_def)
  have a: "\<forall>m\<in>set (members direction_enum). member_initializer m = None"
    by (simp add: direction_enum_def)
  from enum_default_values[of direction_enum initial_state] c m a
  have "\<exists>st2 e2. buildSingleCustomEnum True direction_enum initial_state = Inr st2
         \<and> customEnums st2 = customEnums initial_state @ [e2]
         \<and> enum_type e2 = ''number''
         \<and> map value_value (enum_values e2) = map JSNumber [0..<length (members direction_enum)]"
    by blast
  with first show ?thesis by blast
qed

subsection \<open>The result of a streaming function\<close>









subsection \<open>Names that differ in case\<close>

lemma toLowerChar_toUpperChar: "toLowerChar (toUpperChar c) = toLowerChar c"
proof (cases "isLower c")
  case True
  define n :: nat where "n = of_char c"
  from True have n: "97 \<le> n" "n \<le> 122" by (auto simp: isLower_def n_def)
  then have u: "\<not> isUpper c" by (simp add: isUpper_def n_def[symmetric])
  have up: "toUpperChar c = char_of (n - 32)" using True by (simp add: toUpperChar_def n_def)
  have r: "65 \<le> n - 32" "n - 32 \<le> 90" "n - 32 < 256" using n by arith+
  have o: "(of_char (char_of (n - 32)) :: nat) = n - 32" using r(3) by simp
  have "isUpper (char_of (n - 32))" using r(1,2) by (simp add: isUpper_def o)
  then have "toLowerChar (char_of (n - 32)) = char_of ((of_char (char_of (n - 32)) :: nat) + 32)"
    by (simp only: toLowerChar_def if_True)
  also have "\<dots> = char_of (n - 32 + 32)" by (simp only: o)
  also have "n - 32 + 32 = n" using n by arith
  also have "char_of n = c" by (simp add: n_def)
  finally show ?thesis using u by (simp add: up toLowerChar_def)
next
  case False
  then show ?thesis by (simp add: toUpperChar_def)
qed

lemma toLowerCase_toLocaleUpperCase: "toLowerCase (toLocaleUpperCase s) = toLowerCase s"
  by (simp add: toLowerCase_def toLocaleUpperCase_def toLowerChar_toUpperChar)

lemma fold_duplicate:
  "fold (\<lambda>v duplicate. if P v then True else duplicate) xs b = (b \<or> (\<exists>x\<in>set xs. P x))"
  by (induction xs arbitrary: b) auto

lemma checkForDuplicate_iff:
  "checkForDuplicate xs y = (\<exists>x\<in>set xs. areStringsEqual x y)"
  by (simp add: checkForDuplicate_def fold_duplicate)

lemma getParamType_not_uniqueness:
  "filter isUniquenessDiagnostic (snd (getParamType t be ce)) = []"
  by (auto simp add: getParamType_def Let_def
           split: option.splits type_node.splits if_splits property.splits)

lemma getParameter_not_uniqueness:
  "filter isUniquenessDiagnostic (snd (getParameter be ce info opt p)) = []"
  by (auto simp add: getParameter_def Let_def getParamType_not_uniqueness split: option.splits)

lemma getParameters_not_uniqueness:
  "filter isUniquenessDiagnostic (snd (getParameters be ce info opt ps)) = []"
  by (induction ps) (simp_all add: getParameters_def Let_def getParameter_not_uniqueness)

lemma getOptions_not_uniqueness:
  "filter isUniquenessDiagnostic (snd (getOptions fd s c i)) = []"
  by (simp add: getOptions_def Let_def)

lemma validateId_not_uniqueness: "filter isUniquenessDiagnostic (validateId i) = []"
  by (simp add: validateId_def Let_def)

lemma validateName_not_uniqueness: "filter isUniquenessDiagnostic (validateName n t) = []"
  by (simp add: validateName_def)

lemma getResults_not_uniqueness:
  "getResults fd s lp info be ce = Inr res \<Longrightarrow> filter isUniquenessDiagnostic (snd res) = []"
  by (auto simp add: getResults_def Let_def getParamType_not_uniqueness
           split: if_splits option.splits type_node.splits list.splits sum.splits prod.splits
                  property.splits)

lemma customFunctionMetadata_not_uniqueness:
  assumes "customFunctionMetadata fd be ce = Inr (item, errs)"
  shows "filter isUniquenessDiagnostic errs = []"
  using assms
  by (auto simp add: customFunctionMetadata_def Let_def getParameters_not_uniqueness
        getOptions_not_uniqueness validateId_not_uniqueness validateName_not_uniqueness
        dest!: getResults_not_uniqueness split: sum.splits)

lemma buildFunctions_top_function:
  "buildFunctions fileName True (FunctionDeclarationNode fd cs) st = buildFunctionDeclaration fileName fd st"
  by (cases "buildFunctionDeclaration fileName fd st")
     (simp_all add: forEachChild_id buildFunctions_nested)

lemma buildCustomEnums_function:
  "buildCustomEnums t (FunctionDeclarationNode fd cs) st = Inr st"
  by (simp add: forEachChild_id buildCustomEnums_nested)

lemma customFunctionMetadata_fields:
  assumes "customFunctionMetadata fd be ce = Inr (item, errs)"
  shows "function_id item = customFunctionId fd \<and> function_name item = customFunctionName fd"
  using assms by (auto simp add: customFunctionMetadata_def Let_def split: sum.splits)

lemma no_override:
  assumes "getTagComment (jsDocTags fd) CUSTOM_FUNCTION = []"
  shows "customFunctionId fd = toLocaleUpperCase (declaredName fd)
       \<and> customFunctionName fd = toLocaleUpperCase (declaredName fd)"
  using assms
  by (simp add: customFunctionId_def customFunctionName_def Let_def normalizeCustomFunctionId_def
        toLocaleUpperCase_def)

lemma areStringsEqual_upper:
  "areStringsEqual a b \<Longrightarrow> areStringsEqual (toLocaleUpperCase a) (toLocaleUpperCase b)"
  by (simp add: areStringsEqual_def toLowerCase_toLocaleUpperCase)

subsection \<open>Functions without the custom-function tag\<close>

lemma buildFunctionDeclaration_untagged:
  "\<not> isCustomFunction (jsDocTags fd) \<Longrightarrow>
   buildFunctionDeclaration fileName fd st = Inr (st\<lparr>functionNames := functionNames st @ [declaredName fd]\<rparr>)"
  by (simp add: buildFunctionDeclaration_def Let_def)

lemma buildFunctionDeclaration_mono:
  assumes "buildFunctionDeclaration fileName fd st = Inr st'"
  shows "set (functionNames st) \<subseteq> set (functionNames st') \<and> set (extras st) \<subseteq> set (extras st')"
proof (cases "isCustomFunction (jsDocTags fd)")
  case True
  from buildFunctionDeclaration_custom[OF True assms] show ?thesis by auto
next
  case False
  from buildFunctionDeclaration_untagged[OF False, of fileName st] assms show ?thesis by auto
qed

lemma buildFunctions_top_mono:
  assumes "buildFunctions fileName True n st = Inr st'"
  shows "set (functionNames st) \<subseteq> set (functionNames st') \<and> set (extras st) \<subseteq> set (extras st')"
proof (cases n)
  case (FunctionDeclarationNode fd cs)
  with assms show ?thesis
    using buildFunctionDeclaration_mono[of fileName fd st st']
    by (simp add: buildFunctions_top_function del: buildFunctions.simps)
next
  case (EnumDeclarationNode ed cs)
  with assms show ?thesis by (simp add: forEachChild_id buildFunctions_nested)
next
  case (OtherNode cs)
  with assms show ?thesis by (simp add: forEachChild_id buildFunctions_nested)
qed

lemma forEachChild_buildFunctions_mono:
  "forEachChild (buildFunctions fileName True) ns st = Inr st' \<Longrightarrow>
   set (functionNames st) \<subseteq> set (functionNames st') \<and> set (extras st) \<subseteq> set (extras st')"
proof (induction ns arbitrary: st)
  case Nil
  then show ?case by simp
next
  case (Cons n ns)
  from Cons.prems obtain s1 where s1: "buildFunctions fileName True n st = Inr s1"
    and rest: "forEachChild (buildFunctions fileName True) ns s1 = Inr st'"
    unfolding forEachChild_Cons by (auto split: sum.splits)
  from buildFunctions_top_mono[OF s1] Cons.IH[OF rest] show ?case by blast
qed

lemma forEachChild_append_Inr:
  assumes "forEachChild cb (xs @ ys) st = Inr s2"
  shows "\<exists>s1. forEachChild cb xs st = Inr s1 \<and> forEachChild cb ys s1 = Inr s2"
  using assms by (cases "forEachChild cb xs st") (simp_all add: fold_Inl)

lemma forEachChild_single_Inr:
  assumes "forEachChild cb [x] st = Inr s2"
  shows "cb x st = Inr s2"
  using assms by simp

lemma parseTree_Inr:
  assumes "parseTree ns fileName = Inr r"
  shows "\<exists>s1 s2. forEachChild (buildFunctions fileName True) ns s1 = Inr s2
           \<and> result_extras r = extras s2"
proof -
  from assms obtain s1 s2
    where "forEachChild (buildFunctions fileName True) ns s1 = Inr s2"
      and "r = \<lparr>result_associate = associate s2, result_extras = extras s2,
                 result_functions = functionItems s2, result_enums = customEnums s2\<rparr>"
    unfolding parseTree_def Let_def by (auto split: sum.splits)
  then have "forEachChild (buildFunctions fileName True) ns s1 = Inr s2
           \<and> result_extras r = extras s2" by simp
  then show ?thesis by blast
qed

text \<open>
  C9. A function declaration at the top of the file without the \<^verbatim>\<open>@customfunction\<close>
  tag adds its declared name to the list of function names and changes nothing else:
  no record, no diagnostics. A custom function declared later in the same file whose
  declared name is equal up to letter case gets the diagnostic
  "Duplicate function name" in its entry of the diagnostics.
\<close>

theorem untagged_function_reserves_name:
  assumes "\<not> isCustomFunction (jsDocTags f)" and "isCustomFunction (jsDocTags g)"
    and "areStringsEqual (declaredName f) (declaredName g)"
  shows "buildFunctionDeclaration fileName f st =
           Inr (st\<lparr>functionNames := functionNames st @ [declaredName f]\<rparr>)
       \<and> (\<forall>r. parseTree (before @ [FunctionDeclarationNode f cf] @ between
                           @ [FunctionDeclarationNode g cg] @ after) fileName = Inr r
              \<longrightarrow> (\<exists>x\<in>set (result_extras r).
                     javascriptFunctionName x = declaredName g
                     \<and> DuplicateFunctionName (declaredName g) \<in> set (errors x)))"
proof (intro conjI allI impI)
  show "buildFunctionDeclaration fileName f st =
           Inr (st\<lparr>functionNames := functionNames st @ [declaredName f]\<rparr>)"
    by (rule buildFunctionDeclaration_untagged[OF assms(1)])
next
  fix r
  let ?F = "FunctionDeclarationNode f cf" and ?G = "FunctionDeclarationNode g cg"
  let ?walk = "forEachChild (buildFunctions fileName True)"
  assume "parseTree (before @ [?F] @ between @ [?G] @ after) fileName = Inr r"
  from parseTree_Inr[OF this] obtain s1 s2
    where walk: "?walk (before @ [?F] @ between @ [?G] @ after) s1 = Inr s2"
      and r: "result_extras r = extras s2"
    by blast
  from forEachChild_append_Inr[OF walk] obtain sa
    where w1: "?walk ([?F] @ between @ [?G] @ after) sa = Inr s2" by blast
  from forEachChild_append_Inr[OF w1] obtain sb
    where f: "?walk [?F] sa = Inr sb" and w2: "?walk (between @ [?G] @ after) sb = Inr s2"
    by blast
  from forEachChild_append_Inr[OF w2] obtain sc
    where sc: "?walk between sb = Inr sc" and w3: "?walk ([?G] @ after) sc = Inr s2"
    by blast
  from forEachChild_append_Inr[OF w3] obtain sd
    where g: "?walk [?G] sc = Inr sd" and w4: "?walk after sd = Inr s2"
    by blast
  from forEachChild_single_Inr[OF f]
  have sb: "buildFunctionDeclaration fileName f sa = Inr sb"
    by (simp only: buildFunctions_top_function)
  from forEachChild_single_Inr[OF g]
  have sd: "buildFunctionDeclaration fileName g sc = Inr sd"
    by (simp only: buildFunctions_top_function)
  from sb buildFunctionDeclaration_untagged[OF assms(1), of fileName sa]
  have "declaredName f \<in> set (functionNames sb)" by auto
  with forEachChild_buildFunctions_mono[OF sc]
  have "declaredName f \<in> set (functionNames sc)" by blast
  with assms(3) have dup: "checkForDuplicate (functionNames sc) (declaredName g)"
    unfolding checkForDuplicate_iff by blast
  from buildFunctionDeclaration_custom[OF assms(2) sd] dup obtain x where
    x: "extras sd = extras sc @ [x]" "javascriptFunctionName x = declaredName g"
       "DuplicateFunctionName (declaredName g) \<in> set (errors x)"
    by auto
  then have "x \<in> set (extras sd)" by simp
  with forEachChild_buildFunctions_mono[OF w4] have "x \<in> set (extras s2)" by blast
  with x r show "\<exists>x\<in>set (result_extras r).
                     javascriptFunctionName x = declaredName g
                     \<and> DuplicateFunctionName (declaredName g) \<in> set (errors x)"
    by auto
qed

text \<open>C9 at \<open>plain_add_function\<close> followed by \<open>ADD_function\<close>.\<close>

theorem untagged_function_reserves_name_witness:
  "buildFunctionDeclaration ''functions.ts'' plain_add_function initial_state =
      Inr (initial_state\<lparr>functionNames := functionNames initial_state @ [declaredName plain_add_function]\<rparr>)
   \<and> (case parseTree ([] @ [FunctionDeclarationNode plain_add_function []] @ []
                       @ [FunctionDeclarationNode ADD_function []] @ []) ''functions.ts'' of
        Inl e \<Rightarrow> False
      | Inr r \<Rightarrow> (\<exists>x\<in>set (result_extras r).
                     javascriptFunctionName x = declaredName ADD_function
                     \<and> DuplicateFunctionName (declaredName ADD_function) \<in> set (errors x)))"
proof -
  have u: "\<not> isCustomFunction (jsDocTags plain_add_function)" by code_simp
  have c: "isCustomFunction (jsDocTags ADD_function)" by code_simp
  have eq: "areStringsEqual (declaredName plain_add_function) (declaredName ADD_function)" by code_simp
  have "case parseTree ([] @ [FunctionDeclarationNode plain_add_function []] @ []
                       @ [FunctionDeclarationNode ADD_function []] @ []) ''functions.ts'' of
          Inl e \<Rightarrow> False | Inr r \<Rightarrow> True" by code_simp
  then obtain r where p: "parseTree ([] @ [FunctionDeclarationNode plain_add_function []] @ []
                       @ [FunctionDeclarationNode ADD_function []] @ []) ''functions.ts'' = Inr r"
    by (auto split: sum.splits)
  note t = untagged_function_reserves_name[OF u c eq, of "''functions.ts''" initial_state "[]" "[]" "[]" "[]" "[]"]
  from t p have "\<exists>x\<in>set (result_extras r).
                     javascriptFunctionName x = declaredName ADD_function
                     \<and> DuplicateFunctionName (declaredName ADD_function) \<in> set (errors x)"
    by blast
  with t p show ?thesis by simp
qed

subsection \<open>Two custom functions whose names differ in case\<close>

lemma buildFunctionDeclaration_mono_metadata:
  assumes "buildFunctionDeclaration fileName fd st = Inr st'"
  shows "set (metadataFunctionNames st) \<subseteq> set (metadataFunctionNames st')
       \<and> set (metadataFunctionIds st) \<subseteq> set (metadataFunctionIds st')"
proof (cases "isCustomFunction (jsDocTags fd)")
  case True
  from buildFunctionDeclaration_custom[OF True assms] show ?thesis by auto
next
  case False
  from buildFunctionDeclaration_untagged[OF False, of fileName st] assms show ?thesis by auto
qed

lemma buildFunctions_top_mono_metadata:
  assumes "buildFunctions fileName True n st = Inr st'"
  shows "set (metadataFunctionNames st) \<subseteq> set (metadataFunctionNames st')
       \<and> set (metadataFunctionIds st) \<subseteq> set (metadataFunctionIds st')"
proof (cases n)
  case (FunctionDeclarationNode fd cs)
  with assms show ?thesis
    using buildFunctionDeclaration_mono_metadata[of fileName fd st st']
    by (simp add: buildFunctions_top_function del: buildFunctions.simps)
next
  case (EnumDeclarationNode ed cs)
  with assms show ?thesis by (simp add: forEachChild_id buildFunctions_nested)
next
  case (OtherNode cs)
  with assms show ?thesis by (simp add: forEachChild_id buildFunctions_nested)
qed

lemma forEachChild_buildFunctions_mono_metadata:
  "forEachChild (buildFunctions fileName True) ns st = Inr st' \<Longrightarrow>
   set (metadataFunctionNames st) \<subseteq> set (metadataFunctionNames st')
   \<and> set (metadataFunctionIds st) \<subseteq> set (metadataFunctionIds st')"
proof (induction ns arbitrary: st)
  case Nil
  then show ?case by simp
next
  case (Cons n ns)
  from Cons.prems obtain s1 where s1: "buildFunctions fileName True n st = Inr s1"
    and rest: "forEachChild (buildFunctions fileName True) ns s1 = Inr st'"
    unfolding forEachChild_Cons by (auto split: sum.splits)
  from buildFunctions_top_mono_metadata[OF s1] Cons.IH[OF rest] show ?case by blast
qed

lemma later_duplicate_entry:
  assumes "isCustomFunction (jsDocTags f1)" and "isCustomFunction (jsDocTags f2)"
    and "getTagComment (jsDocTags f1) CUSTOM_FUNCTION = []"
    and "getTagComment (jsDocTags f2) CUSTOM_FUNCTION = []"
    and "areStringsEqual (declaredName f1) (declaredName f2)"
    and "parseTree (before @ [FunctionDeclarationNode f1 c1] @ between
                    @ [FunctionDeclarationNode f2 c2] @ after) fileName = Inr r"
  shows "\<exists>x\<in>set (result_extras r).
           javascriptFunctionName x = declaredName f2
           \<and> filter isUniquenessDiagnostic (errors x) =
               [DuplicateFunctionName (declaredName f2),
                CustomFunctionDuplicateName (toLocaleUpperCase (declaredName f2)),
                CustomFunctionDuplicateId (toLocaleUpperCase (declaredName f2))]"
proof -
  let ?F = "FunctionDeclarationNode f1 c1" and ?G = "FunctionDeclarationNode f2 c2"
  let ?walk = "forEachChild (buildFunctions fileName True)"
  from parseTree_Inr[OF assms(6)] obtain s1 s2
    where walk: "?walk (before @ [?F] @ between @ [?G] @ after) s1 = Inr s2"
      and r: "result_extras r = extras s2"
    by blast
  from forEachChild_append_Inr[OF walk] obtain sa
    where w1: "?walk ([?F] @ between @ [?G] @ after) sa = Inr s2" by blast
  from forEachChild_append_Inr[OF w1] obtain sb
    where f: "?walk [?F] sa = Inr sb" and w2: "?walk (between @ [?G] @ after) sb = Inr s2"
    by blast
  from forEachChild_append_Inr[OF w2] obtain sc
    where sc: "?walk between sb = Inr sc" and w3: "?walk ([?G] @ after) sc = Inr s2"
    by blast
  from forEachChild_append_Inr[OF w3] obtain sd
    where g: "?walk [?G] sc = Inr sd" and w4: "?walk after sd = Inr s2"
    by blast
  from forEachChild_single_Inr[OF f]
  have sb: "buildFunctionDeclaration fileName f1 sa = Inr sb"
    by (simp only: buildFunctions_top_function)
  from forEachChild_single_Inr[OF g]
  have sd: "buildFunctionDeclaration fileName f2 sc = Inr sd"
    by (simp only: buildFunctions_top_function)
  from buildFunctionDeclaration_custom[OF assms(1) sb] obtain i1 e1 where
    m1: "customFunctionMetadata f1 (basicEnums sa) (customEnums sa) = Inr (i1, e1)" and
    in_sb: "declaredName f1 \<in> set (functionNames sb)"
           "function_name i1 \<in> set (metadataFunctionNames sb)"
           "function_id i1 \<in> set (metadataFunctionIds sb)"
    by auto
  note f1 = customFunctionMetadata_fields[OF m1] no_override[OF assms(3)]
  from in_sb f1 forEachChild_buildFunctions_mono[OF sc]
    forEachChild_buildFunctions_mono_metadata[OF sc]
  have in_sc: "declaredName f1 \<in> set (functionNames sc)"
      "toLocaleUpperCase (declaredName f1) \<in> set (metadataFunctionNames sc)"
      "toLocaleUpperCase (declaredName f1) \<in> set (metadataFunctionIds sc)"
    by auto
  have u: "areStringsEqual (toLocaleUpperCase (declaredName f1)) (toLocaleUpperCase (declaredName f2))"
    by (rule areStringsEqual_upper[OF assms(5)])
  from in_sc assms(5) u have dup:
      "checkForDuplicate (functionNames sc) (declaredName f2)"
      "checkForDuplicate (metadataFunctionNames sc) (toLocaleUpperCase (declaredName f2))"
      "checkForDuplicate (metadataFunctionIds sc) (toLocaleUpperCase (declaredName f2))"
    unfolding checkForDuplicate_iff by blast+
  from buildFunctionDeclaration_custom[OF assms(2) sd] obtain i2 e2 where
    m2: "customFunctionMetadata f2 (basicEnums sc) (customEnums sc) = Inr (i2, e2)" and
    x: "extras sd = extras sc @ [\<lparr>errors =
                (if checkForDuplicate (functionNames sc) (declaredName f2)
                 then [DuplicateFunctionName (declaredName f2)] else [])
                @ e2
                @ (if checkForDuplicate (metadataFunctionNames sc) (function_name i2)
                   then [CustomFunctionDuplicateName (function_name i2)] else [])
                @ (if checkForDuplicate (metadataFunctionIds sc) (function_id i2)
                   then [CustomFunctionDuplicateId (function_id i2)] else []),
                javascriptFunctionName = declaredName f2\<rparr>]"
    by auto
  note f2 = customFunctionMetadata_fields[OF m2] no_override[OF assms(4)]
  have n2: "filter isUniquenessDiagnostic e2 = []"
    by (rule customFunctionMetadata_not_uniqueness[OF m2])
  let ?x = "\<lparr>errors = [DuplicateFunctionName (declaredName f2)] @ e2
                @ [CustomFunctionDuplicateName (toLocaleUpperCase (declaredName f2))]
                @ [CustomFunctionDuplicateId (toLocaleUpperCase (declaredName f2))],
              javascriptFunctionName = declaredName f2\<rparr>"
  from x dup f2 have "?x \<in> set (extras sd)" by simp
  with forEachChild_buildFunctions_mono[OF w4] have "?x \<in> set (extras s2)" by blast
  moreover have "filter isUniquenessDiagnostic (errors ?x) =
               [DuplicateFunctionName (declaredName f2),
                CustomFunctionDuplicateName (toLocaleUpperCase (declaredName f2)),
                CustomFunctionDuplicateId (toLocaleUpperCase (declaredName f2))]"
    using n2 by simp
  moreover have "javascriptFunctionName ?x = declaredName f2" by simp
  ultimately show ?thesis unfolding r by blast
qed

lemma two_declarations_diagnostics:
  assumes "isCustomFunction (jsDocTags f1)" and "isCustomFunction (jsDocTags f2)"
    and "getTagComment (jsDocTags f1) CUSTOM_FUNCTION = []"
    and "getTagComment (jsDocTags f2) CUSTOM_FUNCTION = []"
    and "areStringsEqual (declaredName f1) (declaredName f2)"
    and "parseTree [FunctionDeclarationNode f1 c1, FunctionDeclarationNode f2 c2] fileName = Inr r"
  shows "filter isUniquenessDiagnostic (concat (map errors (result_extras r))) =
           [DuplicateFunctionName (declaredName f2),
            CustomFunctionDuplicateName (toLocaleUpperCase (declaredName f2)),
            CustomFunctionDuplicateId (toLocaleUpperCase (declaredName f2))]"
proof -
  define st0 where "st0 = initial_state\<lparr>basicEnums :=
      fold buildEnums [FunctionDeclarationNode f1 c1, FunctionDeclarationNode f2 c2] []\<rparr>"
  have empty: "functionNames st0 = []" "metadataFunctionNames st0 = []" "metadataFunctionIds st0 = []"
    "extras st0 = []"
    by (simp_all add: st0_def initial_state_def)
  from assms(6) obtain sa sb where
    a: "buildFunctionDeclaration fileName f1 st0 = Inr sa" and
    b: "buildFunctionDeclaration fileName f2 sa = Inr sb" and
    r: "result_extras r = extras sb"
    unfolding parseTree_def Let_def st0_def[symmetric]
    by (auto simp add: buildCustomEnums_function buildFunctions_top_function
          simp del: buildFunctions.simps buildCustomEnums.simps split: sum.splits)
  from buildFunctionDeclaration_custom[OF assms(1) a] obtain i1 e1 where
    m1: "customFunctionMetadata f1 (basicEnums st0) (customEnums st0) = Inr (i1, e1)" and
    sa: "functionNames sa = [declaredName f1]" "metadataFunctionNames sa = [function_name i1]"
        "metadataFunctionIds sa = [function_id i1]"
        "extras sa = [\<lparr>errors = e1, javascriptFunctionName = declaredName f1\<rparr>]"
    by (auto simp add: empty checkForDuplicate_iff)
  from buildFunctionDeclaration_custom[OF assms(2) b] obtain i2 e2 where
    m2: "customFunctionMetadata f2 (basicEnums sa) (customEnums sa) = Inr (i2, e2)" and
    sb: "extras sb = extras sa @ [\<lparr>errors =
                (if checkForDuplicate (functionNames sa) (declaredName f2)
                 then [DuplicateFunctionName (declaredName f2)] else [])
                @ e2
                @ (if checkForDuplicate (metadataFunctionNames sa) (function_name i2)
                   then [CustomFunctionDuplicateName (function_name i2)] else [])
                @ (if checkForDuplicate (metadataFunctionIds sa) (function_id i2)
                   then [CustomFunctionDuplicateId (function_id i2)] else []),
                javascriptFunctionName = declaredName f2\<rparr>]"
    by auto
  note f1 = customFunctionMetadata_fields[OF m1] no_override[OF assms(3)]
  note f2 = customFunctionMetadata_fields[OF m2] no_override[OF assms(4)]
  have u: "areStringsEqual (toLocaleUpperCase (declaredName f1)) (toLocaleUpperCase (declaredName f2))"
    by (rule areStringsEqual_upper[OF assms(5)])
  have n1: "filter isUniquenessDiagnostic e1 = []"
    by (rule customFunctionMetadata_not_uniqueness[OF m1])
  have n2: "filter isUniquenessDiagnostic e2 = []"
    by (rule customFunctionMetadata_not_uniqueness[OF m2])
  show ?thesis
    using assms(5) u n1 n2
    by (simp add: r sb sa f1 f2 checkForDuplicate_iff)
qed

text \<open>
  C5, as amended. Two custom functions in one file, with no id or name in their
  \<^verbatim>\<open>@customfunction\<close> tags and with declared names that are equal up to letter case:
  the entry of diagnostics of the later one holds exactly three uniqueness diagnostics,
  "Duplicate function name" with its declared name, and "@customfunction tag specifies a
  duplicate name" and "... a duplicate id" with its upper-cased name. When the two
  declarations are the whole file, these three are all the uniqueness diagnostics of the
  file: the first declaration gets none.
\<close>

theorem case_duplicate_diagnostics:
  assumes "isCustomFunction (jsDocTags f1)" and "isCustomFunction (jsDocTags f2)"
    and "getTagComment (jsDocTags f1) CUSTOM_FUNCTION = []"
    and "getTagComment (jsDocTags f2) CUSTOM_FUNCTION = []"
    and "areStringsEqual (declaredName f1) (declaredName f2)"
  shows "(\<forall>r. parseTree (before @ [FunctionDeclarationNode f1 c1] @ between
                          @ [FunctionDeclarationNode f2 c2] @ after) fileName = Inr r
            \<longrightarrow> (\<exists>x\<in>set (result_extras r).
                   javascriptFunctionName x = declaredName f2
                   \<and> filter isUniquenessDiagnostic (errors x) =
                       [DuplicateFunctionName (declaredName f2),
                        CustomFunctionDuplicateName (toLocaleUpperCase (declaredName f2)),
                        CustomFunctionDuplicateId (toLocaleUpperCase (declaredName f2))]))
       \<and> (\<forall>r. parseTree [FunctionDeclarationNode f1 c1, FunctionDeclarationNode f2 c2] fileName = Inr r
            \<longrightarrow> filter isUniquenessDiagnostic (concat (map errors (result_extras r))) =
                  [DuplicateFunctionName (declaredName f2),
                   CustomFunctionDuplicateName (toLocaleUpperCase (declaredName f2)),
                   CustomFunctionDuplicateId (toLocaleUpperCase (declaredName f2))])"
  using later_duplicate_entry[OF assms] two_declarations_diagnostics[OF assms]
  by blast

text \<open>The amended C5 at \<open>add_function\<close> followed by \<open>ADD_function\<close>.\<close>

theorem case_duplicate_diagnostics_witness:
  "case parseTree [FunctionDeclarationNode add_function [], FunctionDeclarationNode ADD_function []]
          ''functions.ts'' of
     Inl e \<Rightarrow> False
   | Inr r \<Rightarrow>
       filter isUniquenessDiagnostic (concat (map errors (result_extras r))) =
         [DuplicateFunctionName ''ADD'', CustomFunctionDuplicateName ''ADD'',
          CustomFunctionDuplicateId ''ADD'']
       \<and> (\<exists>x\<in>set (result_extras r).
             javascriptFunctionName x = ''ADD''
             \<and> filter isUniquenessDiagnostic (errors x) =
                 [DuplicateFunctionName ''ADD'', CustomFunctionDuplicateName ''ADD'',
                  CustomFunctionDuplicateId ''ADD''])"
proof -
  have c1: "isCustomFunction (jsDocTags add_function)" by code_simp
  have c2: "isCustomFunction (jsDocTags ADD_function)" by code_simp
  have t1: "getTagComment (jsDocTags add_function) CUSTOM_FUNCTION = []" by code_simp
  have t2: "getTagComment (jsDocTags ADD_function) CUSTOM_FUNCTION = []" by code_simp
  have eq: "areStringsEqual (declaredName add_function) (declaredName ADD_function)" by code_simp
  have d: "declaredName ADD_function = ''ADD''" by code_simp
  have up: "toLocaleUpperCase ''ADD'' = ''ADD''" by code_simp
  have "case parseTree [FunctionDeclarationNode add_function [], FunctionDeclarationNode ADD_function []]
          ''functions.ts'' of Inl e \<Rightarrow> False | Inr r \<Rightarrow> True" by code_simp
  then obtain r where p: "parseTree [FunctionDeclarationNode add_function [],
      FunctionDeclarationNode ADD_function []] ''functions.ts'' = Inr r"
    by (auto split: sum.splits)
  note t = case_duplicate_diagnostics[OF c1 c2 t1 t2 eq, of "[]" "[]" "[]" "[]" "[]" "''functions.ts''"]
  from t p have whole: "filter isUniquenessDiagnostic (concat (map errors (result_extras r))) =
         [DuplicateFunctionName ''ADD'', CustomFunctionDuplicateName ''ADD'',
          CustomFunctionDuplicateId ''ADD'']"
    by (simp add: d up)
  from t p have "\<exists>x\<in>set (result_extras r).
             javascriptFunctionName x = ''ADD''
             \<and> filter isUniquenessDiagnostic (errors x) =
                 [DuplicateFunctionName ''ADD'', CustomFunctionDuplicateName ''ADD'',
                  CustomFunctionDuplicateId ''ADD'']"
    by (simp add: d up)
  with whole p show ?thesis by simp
qed

text \<open>
  C5 as stated fails: for \<open>add_function\<close> followed by \<open>ADD_function\<close> the second
  declaration gets two diagnostics that report a duplicate name ("Duplicate function
  name: ADD" and "@customfunction tag specifies a duplicate name: ADD") and a third for
  the duplicate id, not exactly one duplicate-name diagnostic.
\<close>

theorem case_duplicate_three_diagnostics:
  "parseTree [FunctionDeclarationNode add_function [], FunctionDeclarationNode ADD_function []]
      ''functions.ts'' =
     Inr \<lparr>result_associate =
            [\<lparr>sourceFileName = ''functions.ts'', functionName = ''add'', associate_id = ''ADD''\<rparr>,
             \<lparr>sourceFileName = ''functions.ts'', functionName = ''ADD'', associate_id = ''ADD''\<rparr>],
          result_extras =
            [\<lparr>errors = [], javascriptFunctionName = ''add''\<rparr>,
             \<lparr>errors = [DuplicateFunctionName ''ADD'', CustomFunctionDuplicateName ''ADD'',
                        CustomFunctionDuplicateId ''ADD''],
              javascriptFunctionName = ''ADD''\<rparr>],
          result_functions =
            [\<lparr>function_id = ''ADD'', function_name = ''ADD'', function_description = None,
              function_helpUrl = None, function_parameters = [],
              function_result = Some \<lparr>result_type = None, result_dimensionality = None\<rparr>,
              function_options = None\<rparr>,
             \<lparr>function_id = ''ADD'', function_name = ''ADD'', function_description = None,
              function_helpUrl = None, function_parameters = [],
              function_result = Some \<lparr>result_type = None, result_dimensionality = None\<rparr>,
              function_options = None\<rparr>],
          result_enums = []\<rparr>"
  by code_simp

subsection \<open>Diagnostics and records\<close>




















subsection \<open>Address options\<close>











end
